theory Spec2Isabelle
  imports Main "HOL-Library.Sublist"
begin

section \<open>Python values\<close>

text \<open>
  The backend (\<^verbatim>\<open>backend/app.py\<close>) is a Flask application over three in-memory stores.
  Every value it handles comes from a JSON request body or is a dictionary literal of the
  code, so Python values are modelled by a JSON datatype. A dictionary is an association
  list (lookup takes the first binding of a key). Numbers are integers: a JSON number with
  a fraction is outside the model.

  A Python \<^verbatim>\<open>str\<close> is a HOL \<open>string\<close>; the character \<open>c\<close> stands for the code point
  \<open>of_char c\<close>, so the model covers the strings whose code points are below 256 and
  \<^verbatim>\<open>lower\<close>, \<^verbatim>\<open>isdigit\<close> and \<^verbatim>\<open>strip\<close> are written out for exactly these code points.
\<close>

datatype json =
    JNull
  | JBool bool
  | JInt int
  | JStr string
  | JArr "json list"
  | JObj "(string \<times> json) list"

type_synonym dict = "(string \<times> json) list"

text \<open>Truth value of a Python object: \<^verbatim>\<open>None\<close>, \<^verbatim>\<open>False\<close>, \<^verbatim>\<open>0\<close> and the empty string, list and
  dictionary are false.\<close>

fun truthy :: "json \<Rightarrow> bool" where
  "truthy JNull = False"
| "truthy (JBool b) = b"
| "truthy (JInt n) = (n \<noteq> 0)"
| "truthy (JStr s) = (s \<noteq> [])"
| "truthy (JArr xs) = (xs \<noteq> [])"
| "truthy (JObj kvs) = (kvs \<noteq> [])"

text \<open>\<^verbatim>\<open>x or y\<close>\<close>

definition py_or :: "json \<Rightarrow> json \<Rightarrow> json" where
  "py_or x y = (if truthy x then x else y)"

text \<open>\<^verbatim>\<open>d.get(k)\<close> and \<^verbatim>\<open>d.get(k, default)\<close> on a dictionary.\<close>

definition dict_get :: "dict \<Rightarrow> string \<Rightarrow> json" where
  "dict_get d k = (case map_of d k of None \<Rightarrow> JNull | Some v \<Rightarrow> v)"

definition dict_get_default :: "dict \<Rightarrow> string \<Rightarrow> json \<Rightarrow> json" where
  "dict_get_default d k dflt = (case map_of d k of None \<Rightarrow> dflt | Some v \<Rightarrow> v)"

text \<open>The exceptions that can escape a route (Flask answers them with status 500).\<close>

datatype error =
    AttributeError string string
  | TypeError string
  | KeyError string

fun type_name :: "json \<Rightarrow> string" where
  "type_name JNull = ''NoneType''"
| "type_name (JBool b) = ''bool''"
| "type_name (JInt n) = ''int''"
| "type_name (JStr s) = ''str''"
| "type_name (JArr xs) = ''list''"
| "type_name (JObj kvs) = ''dict''"

text \<open>\<^verbatim>\<open>str(e)\<close> of an exception.\<close>

fun str_error :: "error \<Rightarrow> string" where
  "str_error (AttributeError ty attr) =
     [CHR 0x27] @ ty @ [CHR 0x27] @ '' object has no attribute '' @ [CHR 0x27] @ attr @ [CHR 0x27]"
| "str_error (TypeError msg) = msg"
| "str_error (KeyError k) = [CHR 0x27] @ k @ [CHR 0x27]"

text \<open>\<^verbatim>\<open>v.get(k)\<close> on any value: only a dictionary has the method.\<close>

fun py_get :: "json \<Rightarrow> string \<Rightarrow> error + json" where
  "py_get (JObj d) k = Inr (dict_get d k)"
| "py_get v k = Inl (AttributeError (type_name v) ''get'')"

subsection \<open>Strings\<close>

definition upper_chars :: string where
  "upper_chars = ''ABCDEFGHIJKLMNOPQRSTUVWXYZ'' @
     [CHR 0xC0, CHR 0xC1, CHR 0xC2, CHR 0xC3, CHR 0xC4, CHR 0xC5, CHR 0xC6, CHR 0xC7,
      CHR 0xC8, CHR 0xC9, CHR 0xCA, CHR 0xCB, CHR 0xCC, CHR 0xCD, CHR 0xCE, CHR 0xCF,
      CHR 0xD0, CHR 0xD1, CHR 0xD2, CHR 0xD3, CHR 0xD4, CHR 0xD5, CHR 0xD6,
      CHR 0xD8, CHR 0xD9, CHR 0xDA, CHR 0xDB, CHR 0xDC, CHR 0xDD, CHR 0xDE]"

definition lower_chars :: string where
  "lower_chars = ''abcdefghijklmnopqrstuvwxyz'' @
     [CHR 0xE0, CHR 0xE1, CHR 0xE2, CHR 0xE3, CHR 0xE4, CHR 0xE5, CHR 0xE6, CHR 0xE7,
      CHR 0xE8, CHR 0xE9, CHR 0xEA, CHR 0xEB, CHR 0xEC, CHR 0xED, CHR 0xEE, CHR 0xEF,
      CHR 0xF0, CHR 0xF1, CHR 0xF2, CHR 0xF3, CHR 0xF4, CHR 0xF5, CHR 0xF6,
      CHR 0xF8, CHR 0xF9, CHR 0xFA, CHR 0xFB, CHR 0xFC, CHR 0xFD, CHR 0xFE]"

text \<open>\<^verbatim>\<open>str.lower\<close>: below code point 256 the upper-case letters are A to Z and the
  Latin-1 letters 0xC0 to 0xDE without the multiplication sign 0xD7; each maps to the
  code point 32 above it.\<close>

definition lower_char :: "char \<Rightarrow> char" where
  "lower_char c = (case map_of (zip upper_chars lower_chars) c of Some d \<Rightarrow> d | None \<Rightarrow> c)"

definition str_lower :: "string \<Rightarrow> string" where
  "str_lower s = map lower_char s"

text \<open>\<^verbatim>\<open>v.lower()\<close> on any value: only a string has the method.\<close>

fun py_lower :: "json \<Rightarrow> error + string" where
  "py_lower (JStr s) = Inr (str_lower s)"
| "py_lower v = Inl (AttributeError (type_name v) ''lower'')"

text \<open>\<^verbatim>\<open>str.isspace\<close> of one character: the code points 9 to 13, 28 to 32, 0x85 and 0xA0.\<close>

definition py_isspace :: "char \<Rightarrow> bool" where
  "py_isspace c = (c \<in> set [CHR 0x09, CHR 0x0A, CHR 0x0B, CHR 0x0C, CHR 0x0D,
     CHR 0x1C, CHR 0x1D, CHR 0x1E, CHR 0x1F, CHR 0x20, CHR 0x85, CHR 0xA0])"

text \<open>\<^verbatim>\<open>s.strip()\<close>\<close>

definition str_strip :: "string \<Rightarrow> string" where
  "str_strip s = rev (dropWhile py_isspace (rev (dropWhile py_isspace s)))"

text \<open>\<^verbatim>\<open>s.replace(ch, "")\<close> for a one-character \<^verbatim>\<open>ch\<close>\<close>

definition str_remove :: "char \<Rightarrow> string \<Rightarrow> string" where
  "str_remove ch s = filter (\<lambda>c. c \<noteq> ch) s"

text \<open>One character of \<^verbatim>\<open>str.isdigit\<close>: 0 to 9 and the superscripts two, three (0xB2, 0xB3)
  and one (0xB9), which Python counts as digits too.\<close>

definition digit_char :: "char \<Rightarrow> bool" where
  "digit_char c = (c \<in> set ''0123456789'' \<or> c \<in> set [CHR 0xB2, CHR 0xB3, CHR 0xB9])"

text \<open>\<^verbatim>\<open>s.isdigit()\<close>: false on the empty string.\<close>

definition str_isdigit :: "string \<Rightarrow> bool" where
  "str_isdigit s = (s \<noteq> [] \<and> list_all digit_char s)"

text \<open>\<^verbatim>\<open>s.startswith(p)\<close>\<close>

definition startswith :: "string \<Rightarrow> string \<Rightarrow> bool" where
  "startswith s p = (take (length p) s = p)"

text \<open>\<^verbatim>\<open>k in s\<close> for two strings: \<open>k\<close> starts at some position of \<open>s\<close>.\<close>

fun str_contains :: "string \<Rightarrow> string \<Rightarrow> bool" where
  "str_contains [] k = (k = [])"
| "str_contains (c # cs) k = (startswith (c # cs) k \<or> str_contains cs k)"

text \<open>\<^verbatim>\<open>str(n)\<close> of an integer: its decimal digits, after a minus sign when negative.\<close>

fun str_nat :: "nat \<Rightarrow> string" where
  "str_nat n = (if n < 10 then [''0123456789'' ! n]
                else str_nat (n div 10) @ [''0123456789'' ! (n mod 10)])"

declare str_nat.simps [simp del]

definition str_int :: "int \<Rightarrow> string" where
  "str_int i = (if i < 0 then ''-'' @ str_nat (nat (- i)) else str_nat (nat i))"

section \<open>Phone numbers\<close>

text \<open>
  \<^verbatim>\<open>clean_and_e164(phone_raw, default_country="91")\<close>. The argument is whatever the JSON
  held. A false value gives \<^verbatim>\<open>None\<close>. Otherwise the code works on \<^verbatim>\<open>str(phone_raw)\<close>:
  the string itself, the decimal digits of an integer, \<^verbatim>\<open>True\<close> for the boolean. The
  text of a list starts with a bracket and that of a dictionary with a brace, which no
  step removes, so neither is all digits nor starts with a plus sign: these give \<^verbatim>\<open>None\<close>.
\<close>

definition clean_str :: "string \<Rightarrow> string \<Rightarrow> string option" where
  "clean_str raw default_country =
     (let s = foldl (\<lambda>s ch. str_remove ch s) (str_strip raw)
                [CHR '' '', CHR ''-'', CHR ''('', CHR '')'', CHR ''.''];
          s_noplus = (if startswith s ''+'' then drop 1 s else s)
      in case (if str_isdigit s_noplus then
                 (if length s_noplus = 10 then Some (''+'' @ default_country @ s_noplus)
                  else if length s_noplus = 12 \<and> startswith s_noplus default_country
                    then Some (''+'' @ s_noplus)
                  else if length s_noplus = 11 \<and> startswith s_noplus ''0''
                          \<and> str_isdigit (drop 1 s_noplus) \<and> length (drop 1 s_noplus) = 10
                    then Some (''+'' @ default_country @ drop 1 s_noplus)
                  else None)
               else None) of
           Some r \<Rightarrow> Some r
         | None \<Rightarrow> if startswith s ''+'' \<and> str_isdigit (drop 1 s) then Some s else None)"

fun clean_and_e164 :: "json \<Rightarrow> string \<Rightarrow> string option" where
  "clean_and_e164 (JStr raw) default_country =
     (if raw = [] then None else clean_str raw default_country)"
| "clean_and_e164 (JInt n) default_country =
     (if n = 0 then None else clean_str (str_int n) default_country)"
| "clean_and_e164 (JBool b) default_country =
     (if \<not> b then None else clean_str ''True'' default_country)"
| "clean_and_e164 JNull default_country = None"
| "clean_and_e164 (JArr xs) default_country = None"
| "clean_and_e164 (JObj kvs) default_country = None"

text \<open>The default of the parameter \<^verbatim>\<open>default_country\<close>; no caller passes another value.\<close>

definition DEFAULT_COUNTRY :: string where
  "DEFAULT_COUNTRY = ''91''"

subsection \<open>The normalizer as the specification words it\<close>

text \<open>
  The algorithm of section 4.1 of the specification, from its words and with no function
  of the code. An input is \<open>None\<close> when null. Step 2 strips whitespace and the punctuation
  set: every whitespace character and every character of the set is taken out, wherever
  it stands. Whitespace is the characters with the Unicode property White_Space (below
  code point 256: 9 to 13, space, 0x85 and 0xA0). A digit is a decimal digit, 0 to 9, as
  in an E.164 number.
\<close>

definition decimal_digit :: "char \<Rightarrow> bool" where
  "decimal_digit c = (c \<in> set ''0123456789'')"

definition all_digits :: "string \<Rightarrow> bool" where
  "all_digits s = (s \<noteq> [] \<and> (\<forall>c \<in> set s. decimal_digit c))"





subsection \<open>The normalizer as the code does step 2\<close>





text \<open>The superscript digits two, three and one, which \<^verbatim>\<open>str.isdigit\<close> accepts and which
  are no decimal digits.\<close>

definition superscript_digit :: "char \<Rightarrow> bool" where
  "superscript_digit c = (c \<in> set [CHR 0xB2, CHR 0xB3, CHR 0xB9])"

definition has_superscript :: "string \<Rightarrow> bool" where
  "has_superscript s = list_ex superscript_digit s"

section \<open>The process: configuration, stores and the outside world\<close>

text \<open>
  What the code reads from outside is a parameter of the model: the three environment
  variables, and the answers of the outside world. \<^verbatim>\<open>uuid.uuid4()\<close>, the clock and the
  SMS provider answer differently at every call, so each is a function of the number of
  calls made so far (the field \<open>clock\<close> of the state). \<open>messages_create\<close> is
  \<^verbatim>\<open>twilio_client.messages.create(body, from_, to)\<close>: \<open>Inr sid\<close> when the provider accepts the
  message, \<open>Inl text\<close> when it raises an exception with that text. A Python set is
  iterated in an order the program does not control: \<open>set_position\<close> ranks the elements,
  any order arises from some ranking. \<open>container_repr\<close> is \<^verbatim>\<open>str\<close> on a list or
  dictionary.
\<close>

record env =
  TWILIO_SID :: string
  TWILIO_AUTH :: string
  TWILIO_NUMBER :: string
  uuid4_hex :: "nat \<Rightarrow> string"
  utcnow_isoformat :: "nat \<Rightarrow> string"
  messages_create :: "nat \<Rightarrow> json \<Rightarrow> string \<Rightarrow> string \<Rightarrow> string + string"
  set_position :: "json \<Rightarrow> nat"
  container_repr :: "json \<Rightarrow> string"

text \<open>A value of \<^verbatim>\<open>USERS_DB\<close>: a dictionary with the keys \<^verbatim>\<open>profile\<close>, \<^verbatim>\<open>family\<close> and
  \<^verbatim>\<open>history\<close>. The code creates it with the three keys, assigns the first two and
  inserts into the list under the third; it never removes a key.\<close>

record user =
  profile :: json
  family :: json
  history :: "json list"

text \<open>The three global stores, the number of calls made to the outside world, and the
  calls that reached the SMS provider (body, sender number, recipient), oldest first.\<close>

record state =
  USERS_DB :: "string \<rightharpoonup> user"
  ALERTS_DB :: "json list"
  FAMILY_LOG_DB :: "json list"
  clock :: nat
  gateway_calls :: "(json \<times> string \<times> string) list"

text \<open>Lines 19 to 22: the client exists when both the account identifier and the secret
  are non-empty. Nothing else runs when the module is loaded, so the process starts with
  or without the configuration, on empty stores.\<close>

definition twilio_client :: "env \<Rightarrow> (string \<times> string) option" where
  "twilio_client env =
     (if TWILIO_SID env \<noteq> [] \<and> TWILIO_AUTH env \<noteq> []
      then Some (TWILIO_SID env, TWILIO_AUTH env) else None)"

definition startup :: state where
  "startup = \<lparr>USERS_DB = Map.empty, ALERTS_DB = [], FAMILY_LOG_DB = [], clock = 0,
               gateway_calls = []\<rparr>"

type_synonym response = "json \<times> nat"

text \<open>A route answers with a JSON body and a status, or an exception escapes it; either
  way it leaves a state behind.\<close>

type_synonym outcome = "(error + response) \<times> state"

definition now_iso :: "env \<Rightarrow> state \<Rightarrow> string \<times> state" where
  "now_iso env s = (utcnow_isoformat env (clock s), s\<lparr>clock := Suc (clock s)\<rparr>)"

definition gen_id :: "env \<Rightarrow> state \<Rightarrow> string \<times> state" where
  "gen_id env s = (''id_'' @ take 12 (uuid4_hex env (clock s)), s\<lparr>clock := Suc (clock s)\<rparr>)"

section \<open>Sending one SMS\<close>

definition send_sms_twilio_single :: "env \<Rightarrow> string \<Rightarrow> json \<Rightarrow> state \<Rightarrow> dict \<times> state" where
  "send_sms_twilio_single env to_e164 body_text s =
     (case twilio_client env of
        None \<Rightarrow>
          ([(''ok'', JBool False), (''error'', JStr ''Twilio not configured (env missing).'')], s)
      | Some client \<Rightarrow>
          (let s' = s\<lparr>clock := Suc (clock s),
                      gateway_calls := gateway_calls s @ [(body_text, TWILIO_NUMBER env, to_e164)]\<rparr>
           in case messages_create env (clock s) body_text (TWILIO_NUMBER env) to_e164 of
                Inr sid \<Rightarrow> ([(''ok'', JBool True), (''sid'', JStr sid)], s')
              | Inl e \<Rightarrow> ([(''ok'', JBool False), (''error'', JStr e)], s')))"

section \<open>The message analyzer\<close>

text \<open>The list \<^verbatim>\<open>keywords\<close> of \<^verbatim>\<open>analyze_message\<close>.\<close>

definition keywords_list :: "string list" where
  "keywords_list = [''otp'', ''urgent'', ''bank'', ''blocked'', ''verify'', ''password'',
               ''transfer'', ''account'', ''click'', ''wire'']"

text \<open>The two warnings start with a symbol beyond code point 255 (the warning sign
  U+26A0, the check mark U+2714); it is spelled here by its three UTF-8 bytes. No function
  of the model looks inside a warning.\<close>

definition WARNING_SIGN :: string where
  "WARNING_SIGN = [CHR 0xE2, CHR 0x9A, CHR 0xA0]"

definition CHECK_MARK :: string where
  "CHECK_MARK = [CHR 0xE2, CHR 0x9C, CHR 0x94]"

text \<open>The \<^verbatim>\<open>try\<close> block can only fail at \<^verbatim>\<open>.lower()\<close>, on a true value that is not a
  string; the \<^verbatim>\<open>except\<close> branch then answers with \<^verbatim>\<open>is_scam\<close> set to \<^verbatim>\<open>None\<close>.\<close>

definition analyze_message :: "json \<Rightarrow> dict" where
  "analyze_message message_text =
     (case py_lower (py_or message_text (JStr [])) of
        Inr lower \<Rightarrow>
          (let is_scam = list_ex (\<lambda>k. str_contains lower k) keywords_list;
               elder_warning =
                 (if is_scam
                  then WARNING_SIGN @ '' This message looks suspicious. Do NOT share OTP/passwords.''
                  else CHECK_MARK @ '' This message appears safe.'');
               explanation = ''Detected using keyword rules (demo).''
           in [(''is_scam'', JBool is_scam), (''elder_warning'', JStr elder_warning),
               (''explanation'', JStr explanation)])
      | Inl e \<Rightarrow>
          [(''is_scam'', JNull), (''elder_warning'', JStr ''AI could not analyze this message.''),
           (''explanation'', JStr (str_error e))])"

section \<open>Saving an alert\<close>

definition default_user :: "string \<Rightarrow> user" where
  "default_user email =
     \<lparr>profile = JObj [(''email'', JStr email), (''name'', JStr []), (''phone'', JStr [])],
      family = JArr [], history = []\<rparr>"

text \<open>\<^verbatim>\<open>USERS_DB.setdefault(email, {...})\<close> with the default record of the code: the record
  stored under the key, after storing the default one when the key was absent.\<close>

definition setdefault :: "string \<Rightarrow> state \<Rightarrow> user \<times> state" where
  "setdefault email s =
     (case USERS_DB s email of
        Some u \<Rightarrow> (u, s)
      | None \<Rightarrow> (default_user email, s\<lparr>USERS_DB := (USERS_DB s)(email \<mapsto> default_user email)\<rparr>))"

definition save_alert ::
  "env \<Rightarrow> json \<Rightarrow> json \<Rightarrow> dict \<Rightarrow> string option \<Rightarrow> state \<Rightarrow> dict \<times> state" where
  "save_alert env sender message analysis user_email s =
     (let (aid, s1) = gen_id env s;
          (ts, s2) = now_iso env s1;
          alert = [(''id'', JStr aid), (''sender'', sender), (''message'', message),
                   (''is_scam'', dict_get analysis ''is_scam''),
                   (''elder_warning'', dict_get analysis ''elder_warning''),
                   (''explanation'', dict_get analysis ''explanation''),
                   (''created_at'', JStr ts),
                   (''user_email'', (case user_email of None \<Rightarrow> JNull | Some e \<Rightarrow> JStr e))];
          s3 = s2\<lparr>ALERTS_DB := JObj alert # ALERTS_DB s2\<rparr>
      in case user_email of
           None \<Rightarrow> (alert, s3)
         | Some e \<Rightarrow>
             if e = [] then (alert, s3)
             else (let (usr, s4) = setdefault e s3
                   in (alert, s4\<lparr>USERS_DB := (USERS_DB s4)
                                   (e \<mapsto> usr\<lparr>history := JObj alert # history usr\<rparr>)\<rparr>)))"

section \<open>Routes of the directory\<close>

definition user_json :: "user \<Rightarrow> json" where
  "user_json u = JObj [(''profile'', profile u), (''family'', family u),
                       (''history'', JArr (history u))]"

definition email_required :: response where
  "email_required = (JObj [(''success'', JBool False), (''error'', JStr ''email required'')], 400)"

text \<open>Every POST route starts with \<^verbatim>\<open>data = request.json or {}\<close> and calls \<^verbatim>\<open>data.get\<close>,
  which only a dictionary has. \<^verbatim>\<open>USERS_DB[email]\<close> raises \<^verbatim>\<open>KeyError\<close> on an absent key.\<close>

definition login :: "json \<Rightarrow> state \<Rightarrow> outcome" where
  "login request_json s =
     (case py_or request_json (JObj []) of
        JObj data \<Rightarrow>
          (case py_lower (py_or (dict_get data ''email'') (JStr [])) of
             Inl err \<Rightarrow> (Inl err, s)
           | Inr email \<Rightarrow>
               if email = [] then (Inr email_required, s)
               else (let (usr, s1) = setdefault email s
                     in case USERS_DB s1 email of
                          None \<Rightarrow> (Inl (KeyError email), s1)
                        | Some u \<Rightarrow>
                            (Inr (JObj [(''success'', JBool True), (''user'', user_json u)], 200), s1)))
      | v \<Rightarrow> (Inl (AttributeError (type_name v) ''get''), s))"

definition save_profile :: "json \<Rightarrow> state \<Rightarrow> outcome" where
  "save_profile request_json s =
     (case py_or request_json (JObj []) of
        JObj data \<Rightarrow>
          (case py_lower (py_or (dict_get data ''email'') (JStr [])) of
             Inl err \<Rightarrow> (Inl err, s)
           | Inr email \<Rightarrow>
               (let new_profile = py_or (dict_get data ''profile'') (JObj [])
                in if email = [] then (Inr email_required, s)
                   else (let (usr, s1) = setdefault email s
                         in case USERS_DB s1 email of
                              None \<Rightarrow> (Inl (KeyError email), s1)
                            | Some u \<Rightarrow>
                                (Inr (JObj [(''success'', JBool True)], 200),
                                 s1\<lparr>USERS_DB := (USERS_DB s1)(email \<mapsto> u\<lparr>profile := new_profile\<rparr>)\<rparr>))))
      | v \<Rightarrow> (Inl (AttributeError (type_name v) ''get''), s))"

definition save_family :: "json \<Rightarrow> state \<Rightarrow> outcome" where
  "save_family request_json s =
     (case py_or request_json (JObj []) of
        JObj data \<Rightarrow>
          (case py_lower (py_or (dict_get data ''email'') (JStr [])) of
             Inl err \<Rightarrow> (Inl err, s)
           | Inr email \<Rightarrow>
               (let new_family = py_or (dict_get data ''family'') (JArr [])
                in if email = [] then (Inr email_required, s)
                   else (let (usr, s1) = setdefault email s
                         in case USERS_DB s1 email of
                              None \<Rightarrow> (Inl (KeyError email), s1)
                            | Some u \<Rightarrow>
                                (Inr (JObj [(''success'', JBool True)], 200),
                                 s1\<lparr>USERS_DB := (USERS_DB s1)(email \<mapsto> u\<lparr>family := new_family\<rparr>)\<rparr>))))
      | v \<Rightarrow> (Inl (AttributeError (type_name v) ''get''), s))"

text \<open>\<^verbatim>\<open>GET /alerts\<close>: the argument is the query parameter \<^verbatim>\<open>email\<close>, a string when given.\<close>

definition get_alerts :: "string option \<Rightarrow> state \<Rightarrow> outcome" where
  "get_alerts email s =
     (case (case email of None \<Rightarrow> None | Some e \<Rightarrow> if e = [] then None else Some e) of
        Some e \<Rightarrow>
          (case USERS_DB s (str_lower e) of
             Some usr \<Rightarrow> (Inr (JObj [(''alerts'', JArr (history usr))], 200), s)
           | None \<Rightarrow> (Inr (JObj [(''alerts'', JArr [])], 200), s))
      | None \<Rightarrow> (Inr (JObj [(''alerts'', JArr (ALERTS_DB s))], 200), s))"

text \<open>\<^verbatim>\<open>GET /family-logs\<close>\<close>

definition family_logs :: "state \<Rightarrow> outcome" where
  "family_logs s = (Inr (JObj [(''logs'', JArr (FAMILY_LOG_DB s))], 200), s)"

section \<open>Dispatch\<close>

text \<open>A Python set of hashable values, kept as a list without equal elements. Lists and
  dictionaries are not hashable; \<^verbatim>\<open>True\<close> and \<^verbatim>\<open>1\<close> are equal.\<close>

fun hashable :: "json \<Rightarrow> bool" where
  "hashable (JArr xs) = False"
| "hashable (JObj kvs) = False"
| "hashable v = True"

fun num_val :: "json \<Rightarrow> int option" where
  "num_val (JBool b) = Some (if b then 1 else 0)"
| "num_val (JInt n) = Some n"
| "num_val v = None"

definition py_eq :: "json \<Rightarrow> json \<Rightarrow> bool" where
  "py_eq x y = (case (num_val x, num_val y) of (Some a, Some b) \<Rightarrow> a = b | _ \<Rightarrow> x = y)"

definition set_add :: "json list \<Rightarrow> json \<Rightarrow> error + json list" where
  "set_add elems x =
     (if \<not> hashable x
      then Inl (TypeError (''unhashable type: '' @ [CHR 0x27] @ type_name x @ [CHR 0x27]))
      else Inr (if list_ex (py_eq x) elems then elems else elems @ [x]))"

definition set_iter :: "env \<Rightarrow> json list \<Rightarrow> json list" where
  "set_iter env elems = sort_key (set_position env) elems"

text \<open>The keys of a dictionary, each once, in the order of their first binding.\<close>

fun dict_keys :: "dict \<Rightarrow> string list" where
  "dict_keys [] = []"
| "dict_keys ((k, v) # kvs) = k # filter (\<lambda>k'. k' \<noteq> k) (dict_keys kvs)"

text \<open>\<^verbatim>\<open>for m in v\<close>: the elements of a list, the characters of a string, the keys of a
  dictionary; other values are not iterable.\<close>

fun py_iter :: "json \<Rightarrow> error + json list" where
  "py_iter (JArr xs) = Inr xs"
| "py_iter (JStr s) = Inr (map (\<lambda>c. JStr [c]) s)"
| "py_iter (JObj kvs) = Inr (map JStr (dict_keys kvs))"
| "py_iter v = Inl (TypeError ([CHR 0x27] @ type_name v @ [CHR 0x27] @ '' object is not iterable''))"

text \<open>Lines 193 to 195 of \<^verbatim>\<open>test_message\<close>: the user's own phone.\<close>

definition add_user_phone :: "string \<Rightarrow> state \<Rightarrow> json list \<Rightarrow> error + json list" where
  "add_user_phone email s recipients =
     (if email = [] then Inr recipients
      else case USERS_DB s email of
             None \<Rightarrow> Inr recipients
           | Some usr \<Rightarrow>
               (case py_get (profile usr) ''phone'' of
                  Inl err \<Rightarrow> Inl err
                | Inr phone \<Rightarrow> if truthy phone then set_add recipients phone else Inr recipients))"

text \<open>Lines 198 to 201: the loop over the family members.\<close>

fun add_member_phones :: "json list \<Rightarrow> json list \<Rightarrow> error + json list" where
  "add_member_phones [] recipients = Inr recipients"
| "add_member_phones (m # ms) recipients =
     (case py_get m ''phone'' of
        Inl err \<Rightarrow> Inl err
      | Inr phone \<Rightarrow>
          if truthy phone then
            (case set_add recipients phone of
               Inl err \<Rightarrow> Inl err
             | Inr recipients' \<Rightarrow> add_member_phones ms recipients')
          else add_member_phones ms recipients)"

text \<open>Lines 197 to 201: the family phones.\<close>

definition add_family_phones :: "string \<Rightarrow> state \<Rightarrow> json list \<Rightarrow> error + json list" where
  "add_family_phones email s recipients =
     (if email = [] then Inr recipients
      else case USERS_DB s email of
             None \<Rightarrow> Inr recipients
           | Some usr \<Rightarrow>
               (case py_iter (family usr) of
                  Inl err \<Rightarrow> Inl err
                | Inr members \<Rightarrow> add_member_phones members recipients))"

text \<open>Lines 203 to 209 and 242 to 248: the phones that normalize, in the order met. The
  rejected ones are only printed.\<close>

fun clean_phones :: "json list \<Rightarrow> string list \<Rightarrow> string list" where
  "clean_phones [] cleaned = cleaned"
| "clean_phones (ph # phs) cleaned =
     (case clean_and_e164 ph DEFAULT_COUNTRY of
        None \<Rightarrow> clean_phones phs cleaned
      | Some e \<Rightarrow> if e \<noteq> [] then clean_phones phs (cleaned @ [e]) else clean_phones phs cleaned)"

text \<open>\<^verbatim>\<open>str(v)\<close>, as an f-string formats a value.\<close>

fun py_str :: "env \<Rightarrow> json \<Rightarrow> string" where
  "py_str env JNull = ''None''"
| "py_str env (JBool b) = (if b then ''True'' else ''False'')"
| "py_str env (JInt n) = str_int n"
| "py_str env (JStr s) = s"
| "py_str env v = container_repr env v"

text \<open>The body of the loops of lines 214 to 224 and 254 to 265: one send, then one entry
  inserted at the head of \<^verbatim>\<open>FAMILY_LOG_DB\<close>. The two loops differ in the dictionary
  they build, given here by \<open>entry\<close> from the identifier, the number, the result of the
  send and the time.\<close>

definition send_and_log ::
  "env \<Rightarrow> (string \<Rightarrow> string \<Rightarrow> dict \<Rightarrow> string \<Rightarrow> dict) \<Rightarrow> json \<Rightarrow> string \<Rightarrow> state
     \<Rightarrow> json \<times> state" where
  "send_and_log env entry body_text e164 s =
     (let (res, s1) = send_sms_twilio_single env e164 body_text s;
          (lid, s2) = gen_id env s1;
          (ts, s3) = now_iso env s2;
          log_entry = JObj (entry lid e164 res ts)
      in (log_entry, s3\<lparr>FAMILY_LOG_DB := log_entry # FAMILY_LOG_DB s3\<rparr>))"

text \<open>The loop: every number in turn, each entry appended to the results.\<close>

fun send_each ::
  "env \<Rightarrow> (string \<Rightarrow> string \<Rightarrow> dict \<Rightarrow> string \<Rightarrow> dict) \<Rightarrow> json \<Rightarrow> string list \<Rightarrow> state
     \<Rightarrow> json list \<Rightarrow> json list \<times> state" where
  "send_each env entry body_text [] s sms_results = (sms_results, s)"
| "send_each env entry body_text (e164 # rest) s sms_results =
     (let (log_entry, s') = send_and_log env entry body_text e164 s
      in send_each env entry body_text rest s' (sms_results @ [log_entry]))"

text \<open>The entry of \<^verbatim>\<open>test_message\<close> (lines 216 to 222).\<close>

definition scam_log_entry :: "string \<Rightarrow> string \<Rightarrow> string \<Rightarrow> dict \<Rightarrow> string \<Rightarrow> dict" where
  "scam_log_entry sms_body lid e164 res ts =
     [(''id'', JStr lid), (''to'', JStr e164), (''body'', JStr sms_body),
      (''result'', JObj res), (''created_at'', JStr ts)]"

text \<open>The entry of \<^verbatim>\<open>send_family_alert\<close> (lines 256 to 263).\<close>

definition adhoc_log_entry :: "json \<Rightarrow> json \<Rightarrow> string \<Rightarrow> string \<Rightarrow> dict \<Rightarrow> string \<Rightarrow> dict" where
  "adhoc_log_entry message_text details lid e164 res ts =
     [(''id'', JStr lid), (''to'', JStr e164), (''message_sent'', message_text),
      (''details'', details), (''result'', JObj res), (''created_at'', JStr ts)]"

definition test_message :: "env \<Rightarrow> json \<Rightarrow> state \<Rightarrow> outcome" where
  "test_message env request_json s =
     (case py_or request_json (JObj []) of
        JObj data \<Rightarrow>
          (case py_lower (py_or (dict_get data ''email'') (JStr [])) of
             Inl err \<Rightarrow> (Inl err, s)
           | Inr email \<Rightarrow>
               (let sender = py_or (dict_get data ''sender'') (JStr ''User'');
                    message = py_or (dict_get data ''message'') (JStr []);
                    analysis = analyze_message message;
                    (alert, s1) = save_alert env sender message analysis
                                    (if email \<noteq> [] then Some email else None) s
                in if dict_get analysis ''is_scam'' = JBool True then
                     (case add_user_phone email s1 [] of
                        Inl err \<Rightarrow> (Inl err, s1)
                      | Inr recipients1 \<Rightarrow>
                          (case add_family_phones email s1 recipients1 of
                             Inl err \<Rightarrow> (Inl err, s1)
                           | Inr recipients \<Rightarrow>
                               (let cleaned = clean_phones (set_iter env recipients) [];
                                    sms_body = WARNING_SIGN @ '' Scam alert for '' @ py_str env sender
                                               @ '': '' @ py_str env (dict_get analysis ''elder_warning'');
                                    (sms_results, s2) =
                                       send_each env (scam_log_entry sms_body) (JStr sms_body) cleaned s1 []
                                in (Inr (JObj [(''success'', JBool True), (''alert'', JObj alert),
                                               (''sms_sent'', JArr sms_results)], 200), s2))))
                   else (Inr (JObj [(''success'', JBool True), (''alert'', JObj alert)], 200), s1)))
      | v \<Rightarrow> (Inl (AttributeError (type_name v) ''get''), s))"


section \<open>Shapes of the stored dictionaries\<close>

fun is_str :: "json \<Rightarrow> bool" where
  "is_str (JStr s) = True"
| "is_str v = False"

text \<open>E.164 as the specification has it: a plus sign followed by decimal digits only.\<close>

fun is_e164 :: "json \<Rightarrow> bool" where
  "is_e164 (JStr s) = (s \<noteq> [] \<and> hd s = CHR ''+'' \<and> all_digits (tl s))"
| "is_e164 v = False"

text \<open>The field \<^verbatim>\<open>to\<close> of an entry: a string that is E.164 unless it holds a superscript
  digit. Of a number with a superscript digit nothing is said.\<close>

fun to_field :: "json \<Rightarrow> bool" where
  "to_field (JStr s) = (has_superscript s \<or> is_e164 (JStr s))"
| "to_field v = False"

text \<open>What \<^verbatim>\<open>send_sms_twilio_single\<close> returns: \<^verbatim>\<open>{"ok": True, "sid": ...}\<close> or
  \<^verbatim>\<open>{"ok": False, "error": ...}\<close>.\<close>

definition is_send_result :: "json \<Rightarrow> bool" where
  "is_send_result v =
     (case v of
        JObj res \<Rightarrow>
          (map fst res = [''ok'', ''sid''] \<and> dict_get res ''ok'' = JBool True
             \<and> is_str (dict_get res ''sid''))
          \<or> (map fst res = [''ok'', ''error''] \<and> dict_get res ''ok'' = JBool False
             \<and> is_str (dict_get res ''error''))
      | _ \<Rightarrow> False)"

text \<open>The two results of a send: the fixed answer when there is no client, and the
  dictionary made of the provider's answer.\<close>

definition not_configured_result :: dict where
  "not_configured_result =
     [(''ok'', JBool False), (''error'', JStr ''Twilio not configured (env missing).'')]"

definition provider_result :: "string + string \<Rightarrow> dict" where
  "provider_result answer =
     (case answer of
        Inr sid \<Rightarrow> [(''ok'', JBool True), (''sid'', JStr sid)]
      | Inl e \<Rightarrow> [(''ok'', JBool False), (''error'', JStr e)])"

text \<open>An entry of the loop for the number \<open>t\<close>: the dictionary \<open>entry\<close> builds from some
  identifier, the number, a result of a send and some time.\<close>

definition logged :: "(string \<Rightarrow> string \<Rightarrow> dict \<Rightarrow> string \<Rightarrow> dict) \<Rightarrow> string \<Rightarrow> json \<Rightarrow> bool" where
  "logged entry t v =
     (\<exists>lid res ts. v = JObj (entry lid t res ts) \<and> is_send_result (JObj res))"




definition entry_to :: "json \<Rightarrow> json" where
  "entry_to v = (case v of JObj e \<Rightarrow> dict_get e ''to'' | _ \<Rightarrow> JNull)"


text \<open>For the dictionary \<open>d\<close> of a request to \<^verbatim>\<open>test_message\<close>: the verdict of the
  classifier on the submitted message, and the text of the SMS the route sends.\<close>

definition verdict :: "dict \<Rightarrow> json" where
  "verdict d = dict_get (analyze_message (py_or (dict_get d ''message'') (JStr []))) ''is_scam''"

definition scam_sms_body :: "env \<Rightarrow> dict \<Rightarrow> string" where
  "scam_sms_body env d =
     WARNING_SIGN @ '' Scam alert for '' @ py_str env (py_or (dict_get d ''sender'') (JStr ''User''))
       @ '': '' @ py_str env (dict_get (analyze_message (py_or (dict_get d ''message'') (JStr [])))
                                ''elder_warning'')"

section \<open>Sample environments and requests\<close>

text \<open>An environment without the provider's configuration.\<close>

definition env_plain :: env where
  "env_plain = \<lparr>TWILIO_SID = [], TWILIO_AUTH = [], TWILIO_NUMBER = [],
     uuid4_hex = (\<lambda>n. ''9f1c2e4a7b3d4c5e8a6f0b1d2c3e4f5a''),
     utcnow_isoformat = (\<lambda>n. ''2024-05-01T10:00:00+00:00''),
     messages_create = (\<lambda>n body_text from_number to_number. Inl ''unreachable''),
     set_position = (\<lambda>v. 0),
     container_repr = (\<lambda>v. ''[]'')\<rparr>"

text \<open>A configured environment whose provider rejects one number.\<close>

definition env_twilio :: env where
  "env_twilio = env_plain\<lparr>TWILIO_SID := ''AC0001'', TWILIO_AUTH := ''secret'',
     TWILIO_NUMBER := ''+15017122661'',
     messages_create := (\<lambda>n body_text from_number to_number.
        if to_number = ''+15550000000'' then Inl ''Unable to create record''
        else Inr ''SM0001'')\<rparr>"

definition asha_profile_request :: json where
  "asha_profile_request =
     JObj [(''email'', JStr ''Asha@Example.com''),
           (''profile'', JObj [(''email'', JStr ''asha@example.com''), (''name'', JStr ''Asha''),
                               (''phone'', JStr ''9876543210'')])]"

definition asha_family_request :: json where
  "asha_family_request =
     JObj [(''email'', JStr ''asha@example.com''),
           (''family'', JArr [JObj [(''name'', JStr ''Ravi''), (''phone'', JStr ''+919876543210''),
                                    (''relation'', JStr ''son'')]])]"

definition asha_scam_request :: json where
  "asha_scam_request =
     JObj [(''email'', JStr ''asha@example.com''), (''sender'', JStr ''VK-BANK''),
           (''message'', JStr ''Verify OTP'')]"

definition asha_safe_request :: json where
  "asha_safe_request =
     JObj [(''email'', JStr ''asha@example.com''), (''sender'', JStr ''Ravi''),
           (''message'', JStr ''Lunch at 1?'')]"

text \<open>The stores after Asha saved her profile and her family.\<close>

definition asha_state :: state where
  "asha_state = snd (save_family asha_family_request (snd (save_profile asha_profile_request startup)))"

definition asha_first_save :: "dict \<times> state" where
  "asha_first_save =
     save_alert env_plain (JStr ''VK-BANK'') (JStr ''Verify OTP'')
       (analyze_message (JStr ''Verify OTP'')) (Some ''asha@example.com'') startup"

definition asha_second_save :: "dict \<times> state" where
  "asha_second_save =
     save_alert env_plain (JStr ''Ravi'') (JStr ''Lunch at 1?'')
       (analyze_message (JStr ''Lunch at 1?'')) (Some ''asha@example.com'') (snd asha_first_save)"



section \<open>Properties of the phone normalizer\<close>


lemma startswith_prefix: "startswith s p = prefix p s"
  unfolding startswith_def prefix_def
  by (metis append_eq_conv_conj append_take_drop_id)

lemma startswith_plus: "startswith s ''+'' = (s \<noteq> [] \<and> hd s = CHR ''+'')"
  by (cases s) (simp_all add: startswith_def)






lemma digit_char_cases: "digit_char c = (decimal_digit c \<or> superscript_digit c)"
  by (simp add: digit_char_def decimal_digit_def superscript_digit_def)

lemma isdigit_decimal: "\<not> has_superscript x \<Longrightarrow> str_isdigit x = all_digits x"
  by (auto simp: str_isdigit_def all_digits_def has_superscript_def list_all_iff list_ex_iff
        digit_char_cases)

lemma no_superscript_subset:
  "\<not> has_superscript x \<Longrightarrow> set y \<subseteq> set x \<Longrightarrow> \<not> has_superscript y"
  by (auto simp: has_superscript_def list_ex_iff)



lemma set_tl: "set (tl s) \<subseteq> set s"
  by (cases s) auto



lemmas phone_eval = clean_str_def DEFAULT_COUNTRY_def str_strip_def py_isspace_def
  str_remove_def startswith_def str_isdigit_def digit_char_def





section \<open>Properties of the classifier\<close>

lemma str_contains_sublist: "str_contains s k = sublist k s"
  by (induction s) (simp_all add: sublist_Cons_right startswith_prefix)

lemma lower_str: "py_lower (py_or (JStr e) (JStr [])) = Inr (str_lower e)"
  by (simp add: py_or_def str_lower_def)

lemma analyze_message_str:
  "analyze_message (JStr t) =
     (let is_scam = (\<exists>k \<in> set keywords_list. sublist k (str_lower t)) in
      [(''is_scam'', JBool is_scam),
       (''elder_warning'', JStr (if is_scam
          then WARNING_SIGN @ '' This message looks suspicious. Do NOT share OTP/passwords.''
          else CHECK_MARK @ '' This message appears safe.'')),
       (''explanation'', JStr ''Detected using keyword rules (demo).'')])"
  unfolding analyze_message_def lower_str
  by (simp add: list_ex_iff str_contains_sublist Let_def)

lemma lower_asha_mixed: "str_lower ''Asha@Example.com'' = ''asha@example.com''"
  by code_simp

lemma lower_asha: "str_lower ''asha@example.com'' = ''asha@example.com''"
  by code_simp

lemma lower_nobody: "str_lower ''Nobody@Example.com'' = ''nobody@example.com''"
  by code_simp


text \<open>
  Claim C3. For every text, the classifier answers \<^verbatim>\<open>is_scam\<close> true exactly when the
  lower-cased text has one of the ten keywords as a substring (\<open>sublist\<close>: the keyword
  stands somewhere inside, between any two characters). So a text with \<^verbatim>\<open>otp\<close> in any
  case is flagged, and a text with none of the keywords is not.
\<close>

theorem analyze_message_keyword_iff:
  "dict_get (analyze_message (JStr t)) ''is_scam''
     = JBool (\<exists>k \<in> set keywords_list. sublist k (str_lower t))
   \<and> keywords_list = [''otp'', ''urgent'', ''bank'', ''blocked'', ''verify'', ''password'',
               ''transfer'', ''account'', ''click'', ''wire'']
   \<and> (sublist ''otp'' (str_lower t)
        \<longrightarrow> dict_get (analyze_message (JStr t)) ''is_scam'' = JBool True)
   \<and> ((\<forall>k \<in> set keywords_list. \<not> sublist k (str_lower t))
        \<longrightarrow> dict_get (analyze_message (JStr t)) ''is_scam'' = JBool False)"
proof -
  have a: "dict_get (analyze_message (JStr t)) ''is_scam''
     = JBool (\<exists>k \<in> set keywords_list. sublist k (str_lower t))"
    by (simp add: analyze_message_str dict_get_def Let_def)
  have b: "''otp'' \<in> set keywords_list" by (simp add: keywords_list_def)
  show ?thesis unfolding a using b by (auto simp: keywords_list_def)
qed

theorem analyze_message_keyword_iff_witness:
  "sublist ''otp'' (str_lower ''Share the OTP'')
   \<and> dict_get (analyze_message (JStr ''Share the OTP'')) ''is_scam'' = JBool True
   \<and> \<not> (\<exists>k \<in> set keywords_list. sublist k (str_lower ''Lunch at 1?''))
   \<and> dict_get (analyze_message (JStr ''Lunch at 1?'')) ''is_scam'' = JBool False
   \<and> dict_get (analyze_message (JStr ''Rewired today'')) ''is_scam'' = JBool True"
proof -
  have a: "sublist ''otp'' (str_lower ''Share the OTP'')"
    unfolding str_contains_sublist[symmetric] by code_simp
  have b: "\<not> (\<exists>k \<in> set keywords_list. sublist k (str_lower ''Lunch at 1?''))"
    unfolding str_contains_sublist[symmetric] by code_simp
  have c: "sublist ''wire'' (str_lower ''Rewired today'')"
    unfolding str_contains_sublist[symmetric] by code_simp
  have d: "''wire'' \<in> set keywords_list" by (simp add: keywords_list_def)
  from c d have e: "\<exists>k \<in> set keywords_list. sublist k (str_lower ''Rewired today'')" by blast
  from a analyze_message_keyword_iff[of "''Share the OTP''"]
  have p1: "dict_get (analyze_message (JStr ''Share the OTP'')) ''is_scam'' = JBool True"
    by blast
  from b analyze_message_keyword_iff[of "''Lunch at 1?''"]
  have p2: "dict_get (analyze_message (JStr ''Lunch at 1?'')) ''is_scam'' = JBool False"
    by blast
  from e analyze_message_keyword_iff[of "''Rewired today''"]
  have p3: "dict_get (analyze_message (JStr ''Rewired today'')) ''is_scam'' = JBool True"
    by simp
  from a b p1 p2 p3 show ?thesis by blast
qed

section \<open>Properties of the directory routes\<close>

lemma py_or_obj: "py_or (JObj d) (JObj []) = JObj d"
  by (simp add: py_or_def)

lemma lower_falsy: "\<not> truthy v \<Longrightarrow> py_lower (py_or v (JStr [])) = Inr []"
  by (simp add: py_or_def str_lower_def)

lemma str_lower_empty: "(str_lower e = []) = (e = [])"
  by (simp add: str_lower_def)

lemma login_rejects:
  "\<not> truthy (dict_get d ''email'') \<Longrightarrow> login (JObj d) s = (Inr email_required, s)"
  by (simp add: login_def py_or_obj lower_falsy)

lemma save_profile_rejects:
  "\<not> truthy (dict_get d ''email'') \<Longrightarrow> save_profile (JObj d) s = (Inr email_required, s)"
  by (simp add: save_profile_def py_or_obj lower_falsy)

lemma save_family_rejects:
  "\<not> truthy (dict_get d ''email'') \<Longrightarrow> save_family (JObj d) s = (Inr email_required, s)"
  by (simp add: save_family_def py_or_obj lower_falsy)

lemma login_accepts:
  assumes "dict_get d ''email'' = JStr e" "e \<noteq> []"
  shows "login (JObj d) s =
     (Inr (JObj [(''success'', JBool True),
                 (''user'', user_json (case USERS_DB s (str_lower e) of
                                         None \<Rightarrow> default_user (str_lower e) | Some u \<Rightarrow> u))], 200),
      s\<lparr>USERS_DB := (USERS_DB s)(str_lower e \<mapsto>
           (case USERS_DB s (str_lower e) of None \<Rightarrow> default_user (str_lower e) | Some u \<Rightarrow> u))\<rparr>)"
proof (cases "USERS_DB s (str_lower e)")
  case None
  then show ?thesis using assms
    by (simp add: login_def py_or_obj lower_str str_lower_empty setdefault_def)
next
  case (Some u)
  then have "(USERS_DB s)(str_lower e \<mapsto> u) = USERS_DB s" by (simp add: fun_upd_idem)
  then show ?thesis using assms Some
    by (simp add: login_def py_or_obj lower_str str_lower_empty setdefault_def)
qed

lemma save_profile_accepts:
  assumes "dict_get d ''email'' = JStr e" "e \<noteq> []"
  shows "save_profile (JObj d) s =
     (Inr (JObj [(''success'', JBool True)], 200),
      s\<lparr>USERS_DB := (USERS_DB s)(str_lower e \<mapsto>
           (case USERS_DB s (str_lower e) of None \<Rightarrow> default_user (str_lower e) | Some u \<Rightarrow> u)
             \<lparr>profile := py_or (dict_get d ''profile'') (JObj [])\<rparr>)\<rparr>)"
  using assms
  by (cases "USERS_DB s (str_lower e)")
     (simp_all add: save_profile_def py_or_obj lower_str str_lower_empty setdefault_def Let_def)

lemma save_family_accepts:
  assumes "dict_get d ''email'' = JStr e" "e \<noteq> []"
  shows "save_family (JObj d) s =
     (Inr (JObj [(''success'', JBool True)], 200),
      s\<lparr>USERS_DB := (USERS_DB s)(str_lower e \<mapsto>
           (case USERS_DB s (str_lower e) of None \<Rightarrow> default_user (str_lower e) | Some u \<Rightarrow> u)
             \<lparr>family := py_or (dict_get d ''family'') (JArr [])\<rparr>)\<rparr>)"
  using assms
  by (cases "USERS_DB s (str_lower e)")
     (simp_all add: save_family_def py_or_obj lower_str str_lower_empty setdefault_def Let_def)

text \<open>
  Claim C7. On a request whose \<^verbatim>\<open>email\<close> is missing, null or empty, \<^verbatim>\<open>login\<close>,
  \<^verbatim>\<open>save_profile\<close> and \<^verbatim>\<open>save_family\<close> answer 400 with \<^verbatim>\<open>email required\<close> and leave the
  state as it was. With a non-empty email they work on the record stored under the
  lower-cased email, which is the default record
  \<^verbatim>\<open>{profile: {email, name: "", phone: ""}, family: [], history: []}\<close> when the email was
  unknown: \<^verbatim>\<open>login\<close> stores and returns it, the other two store it with the profile or
  the family of the request.
\<close>

theorem directory_routes_validate_email:
  "(\<not> truthy (dict_get d ''email'') \<longrightarrow>
       login (JObj d) s = (Inr email_required, s)
     \<and> save_profile (JObj d) s = (Inr email_required, s)
     \<and> save_family (JObj d) s = (Inr email_required, s))
   \<and> (dict_get d ''email'' = JStr e \<and> e \<noteq> [] \<longrightarrow>
       (let k = str_lower e;
            u = (case USERS_DB s k of None \<Rightarrow> default_user k | Some u \<Rightarrow> u)
        in login (JObj d) s =
             (Inr (JObj [(''success'', JBool True), (''user'', user_json u)], 200),
              s\<lparr>USERS_DB := (USERS_DB s)(k \<mapsto> u)\<rparr>)
         \<and> save_profile (JObj d) s =
             (Inr (JObj [(''success'', JBool True)], 200),
              s\<lparr>USERS_DB := (USERS_DB s)
                   (k \<mapsto> u\<lparr>profile := py_or (dict_get d ''profile'') (JObj [])\<rparr>)\<rparr>)
         \<and> save_family (JObj d) s =
             (Inr (JObj [(''success'', JBool True)], 200),
              s\<lparr>USERS_DB := (USERS_DB s)
                   (k \<mapsto> u\<lparr>family := py_or (dict_get d ''family'') (JArr [])\<rparr>)\<rparr>)))
   \<and> default_user k =
       \<lparr>profile = JObj [(''email'', JStr k), (''name'', JStr []), (''phone'', JStr [])],
        family = JArr [], history = []\<rparr>
   \<and> email_required =
       (JObj [(''success'', JBool False), (''error'', JStr ''email required'')], 400)"
proof -
  have a: "\<not> truthy (dict_get d ''email'') \<longrightarrow>
       login (JObj d) s = (Inr email_required, s)
     \<and> save_profile (JObj d) s = (Inr email_required, s)
     \<and> save_family (JObj d) s = (Inr email_required, s)"
    by (simp add: login_rejects save_profile_rejects save_family_rejects)
  have b: "dict_get d ''email'' = JStr e \<and> e \<noteq> [] \<longrightarrow>
       (let k = str_lower e;
            u = (case USERS_DB s k of None \<Rightarrow> default_user k | Some u \<Rightarrow> u)
        in login (JObj d) s =
             (Inr (JObj [(''success'', JBool True), (''user'', user_json u)], 200),
              s\<lparr>USERS_DB := (USERS_DB s)(k \<mapsto> u)\<rparr>)
         \<and> save_profile (JObj d) s =
             (Inr (JObj [(''success'', JBool True)], 200),
              s\<lparr>USERS_DB := (USERS_DB s)
                   (k \<mapsto> u\<lparr>profile := py_or (dict_get d ''profile'') (JObj [])\<rparr>)\<rparr>)
         \<and> save_family (JObj d) s =
             (Inr (JObj [(''success'', JBool True)], 200),
              s\<lparr>USERS_DB := (USERS_DB s)
                   (k \<mapsto> u\<lparr>family := py_or (dict_get d ''family'') (JArr [])\<rparr>)\<rparr>))"
    unfolding Let_def
    using login_accepts[of d e s] save_profile_accepts[of d e s] save_family_accepts[of d e s]
    by blast
  have c: "default_user k =
       \<lparr>profile = JObj [(''email'', JStr k), (''name'', JStr []), (''phone'', JStr [])],
        family = JArr [], history = []\<rparr>"
    by (simp add: default_user_def)
  have d: "email_required =
       (JObj [(''success'', JBool False), (''error'', JStr ''email required'')], 400)"
    by (simp add: email_required_def)
  from a b c d show ?thesis by blast
qed

lemmas route_eval = py_or_def dict_get_def dict_get_default_def setdefault_def default_user_def
  email_required_def gen_id_def now_iso_def

lemma asha_profile_saved:
  "save_profile asha_profile_request startup =
   (Inr (JObj [(''success'', JBool True)], 200),
    startup\<lparr>USERS_DB := [''asha@example.com'' \<mapsto>
       \<lparr>profile = JObj [(''email'', JStr ''asha@example.com''), (''name'', JStr ''Asha''),
                        (''phone'', JStr ''9876543210'')], family = JArr [], history = []\<rparr>]\<rparr>)"
  by (simp add: save_profile_def asha_profile_request_def startup_def route_eval lower_asha_mixed)

lemma asha_state_eq:
  "asha_state =
    startup\<lparr>USERS_DB := [''asha@example.com'' \<mapsto>
       \<lparr>profile = JObj [(''email'', JStr ''asha@example.com''), (''name'', JStr ''Asha''),
                        (''phone'', JStr ''9876543210'')],
        family = JArr [JObj [(''name'', JStr ''Ravi''), (''phone'', JStr ''+919876543210''),
                             (''relation'', JStr ''son'')]], history = []\<rparr>]\<rparr>"
  unfolding asha_state_def asha_profile_saved
  by (simp add: save_family_def asha_family_request_def startup_def route_eval lower_asha)

theorem directory_routes_validate_email_witness:
  "login (JObj [(''email'', JStr ''Asha@Example.com'')]) startup =
      (Inr (JObj [(''success'', JBool True),
                  (''user'', user_json (default_user ''asha@example.com''))], 200),
       startup\<lparr>USERS_DB := [''asha@example.com'' \<mapsto> default_user ''asha@example.com'']\<rparr>)
   \<and> save_profile (JObj [(''email'', JStr ''Asha@Example.com''),
                          (''profile'', JObj [(''phone'', JStr ''9876543210'')])]) startup =
      (Inr (JObj [(''success'', JBool True)], 200),
       startup\<lparr>USERS_DB := [''asha@example.com'' \<mapsto>
          \<lparr>profile = JObj [(''phone'', JStr ''9876543210'')], family = JArr [], history = []\<rparr>]\<rparr>)
   \<and> save_profile (JObj [(''profile'', JObj [(''phone'', JStr ''9876543210'')])]) startup
        = (Inr email_required, startup)
   \<and> save_family (JObj [(''email'', JStr [])]) startup = (Inr email_required, startup)
   \<and> login (JObj [(''email'', JNull)]) startup = (Inr email_required, startup)"
proof -
  have k: "str_lower ''Asha@Example.com'' = ''asha@example.com''"
    by (rule lower_asha_mixed)
  have n: "USERS_DB startup ''asha@example.com'' = None"
    by (simp add: startup_def)
  have a: "login (JObj [(''email'', JStr ''Asha@Example.com'')]) startup =
      (Inr (JObj [(''success'', JBool True),
                  (''user'', user_json (default_user ''asha@example.com''))], 200),
       startup\<lparr>USERS_DB := [''asha@example.com'' \<mapsto> default_user ''asha@example.com'']\<rparr>)"
    using directory_routes_validate_email[where d="[(''email'', JStr ''Asha@Example.com'')]" and e="''Asha@Example.com''" and s=startup]
    by (simp add: dict_get_def k n Let_def) (simp add: startup_def)
  have b: "save_profile (JObj [(''email'', JStr ''Asha@Example.com''),
                          (''profile'', JObj [(''phone'', JStr ''9876543210'')])]) startup =
      (Inr (JObj [(''success'', JBool True)], 200),
       startup\<lparr>USERS_DB := [''asha@example.com'' \<mapsto>
          \<lparr>profile = JObj [(''phone'', JStr ''9876543210'')], family = JArr [], history = []\<rparr>]\<rparr>)"
    using directory_routes_validate_email[where d="[(''email'', JStr ''Asha@Example.com''),
                          (''profile'', JObj [(''phone'', JStr ''9876543210'')])]" and e="''Asha@Example.com''" and s=startup]
    by (simp add: dict_get_def k n Let_def py_or_def default_user_def) (simp add: startup_def)
  have c: "save_profile (JObj [(''profile'', JObj [(''phone'', JStr ''9876543210'')])]) startup
        = (Inr email_required, startup)"
    using directory_routes_validate_email[where d="[(''profile'', JObj [(''phone'', JStr ''9876543210'')])]" and e="[]" and s=startup]
    by (simp add: dict_get_def)
  have d: "save_family (JObj [(''email'', JStr [])]) startup = (Inr email_required, startup)"
    using directory_routes_validate_email[where d="[(''email'', JStr [])]" and e="[]" and s=startup]
    by (simp add: dict_get_def)
  have e: "login (JObj [(''email'', JNull)]) startup = (Inr email_required, startup)"
    using directory_routes_validate_email[where d="[(''email'', JNull)]" and e="[]" and s=startup]
    by (simp add: dict_get_def)
  from a b c d e show ?thesis by blast
qed

section \<open>Properties of the alert ledger\<close>

text \<open>
  Claim C10. The two read routes return the state they were given: \<^verbatim>\<open>GET /alerts\<close> and
  \<^verbatim>\<open>GET /family-logs\<close> change none of \<^verbatim>\<open>USERS_DB\<close>, \<^verbatim>\<open>ALERTS_DB\<close> and
  \<^verbatim>\<open>FAMILY_LOG_DB\<close>. For an email that is not a key of \<^verbatim>\<open>USERS_DB\<close> the answer is the
  empty list, and the email is still not a key afterwards.
\<close>

theorem read_routes_change_nothing:
  "snd (get_alerts email s) = s
   \<and> family_logs s = (Inr (JObj [(''logs'', JArr (FAMILY_LOG_DB s))], 200), s)
   \<and> (e \<noteq> [] \<and> USERS_DB s (str_lower e) = None \<longrightarrow>
        get_alerts (Some e) s = (Inr (JObj [(''alerts'', JArr [])], 200), s)
        \<and> USERS_DB (snd (get_alerts (Some e) s)) (str_lower e) = None)"
  by (simp add: get_alerts_def family_logs_def split: option.splits)

theorem read_routes_change_nothing_witness:
  "snd (get_alerts (Some ''Nobody@Example.com'') asha_state) = asha_state
   \<and> get_alerts (Some ''Nobody@Example.com'') asha_state
        = (Inr (JObj [(''alerts'', JArr [])], 200), asha_state)
   \<and> USERS_DB (snd (get_alerts (Some ''Nobody@Example.com'') asha_state))
        ''nobody@example.com'' = None
   \<and> snd (family_logs asha_state) = asha_state"
proof -
  have k: "str_lower ''Nobody@Example.com'' = ''nobody@example.com''"
    by (rule lower_nobody)
  have n: "USERS_DB asha_state ''nobody@example.com'' = None"
    by (simp add: asha_state_eq startup_def)
  show ?thesis
    using read_routes_change_nothing[where email="Some ''Nobody@Example.com''"
        and s=asha_state and e="''Nobody@Example.com''"] k n
    by simp
qed

lemma save_alert_effect:
  assumes "save_alert env sender message analysis ue s = (A, s')"
  shows "ALERTS_DB s' = JObj A # ALERTS_DB s"
    and "FAMILY_LOG_DB s' = FAMILY_LOG_DB s"
    and "gateway_calls s' = gateway_calls s"
    and "ue = None \<or> ue = Some [] \<Longrightarrow> USERS_DB s' = USERS_DB s"
    and "ue = Some k \<Longrightarrow> k \<noteq> [] \<Longrightarrow>
           USERS_DB s' = (USERS_DB s)(k \<mapsto>
             (case USERS_DB s k of None \<Rightarrow> default_user k | Some u \<Rightarrow> u)
               \<lparr>history := JObj A # history (case USERS_DB s k of None \<Rightarrow> default_user k | Some u \<Rightarrow> u)\<rparr>)"
  using assms
  by (auto simp: save_alert_def gen_id_def now_iso_def setdefault_def Let_def
           split: prod.splits option.splits if_splits)

lemma get_alerts_global:
  "get_alerts None s = (Inr (JObj [(''alerts'', JArr (ALERTS_DB s))], 200), s)"
  by (simp add: get_alerts_def)

text \<open>
  Claim C6. \<^verbatim>\<open>save_alert\<close> puts the new alert at the head of \<^verbatim>\<open>ALERTS_DB\<close> and, when
  \<^verbatim>\<open>user_email\<close> is a non-empty string, at the head of that user's history. After saving
  A1 and then A2, \<^verbatim>\<open>GET /alerts\<close> lists A2, A1 and then what was there before, both
  for the global ledger and, with the user's email, for the history.
\<close>

theorem save_alert_most_recent_first:
  assumes "save_alert env sender1 message1 analysis1 ue s0 = (A1, s1)"
      and "save_alert env sender2 message2 analysis2 ue s1 = (A2, s2)"
  shows "ALERTS_DB s1 = JObj A1 # ALERTS_DB s0
   \<and> get_alerts None s2
        = (Inr (JObj [(''alerts'', JArr (JObj A2 # JObj A1 # ALERTS_DB s0))], 200), s2)
   \<and> (e \<noteq> [] \<and> ue = Some (str_lower e) \<longrightarrow>
        get_alerts (Some e) s1
          = (Inr (JObj [(''alerts'', JArr (JObj A1 #
               (case USERS_DB s0 (str_lower e) of None \<Rightarrow> [] | Some u \<Rightarrow> history u)))], 200), s1)
        \<and> get_alerts (Some e) s2
          = (Inr (JObj [(''alerts'', JArr (JObj A2 # JObj A1 #
               (case USERS_DB s0 (str_lower e) of None \<Rightarrow> [] | Some u \<Rightarrow> history u)))], 200), s2))"
proof -
  note e1 = save_alert_effect[OF assms(1)]
  note e2 = save_alert_effect[OF assms(2)]
  have a: "ALERTS_DB s1 = JObj A1 # ALERTS_DB s0" by (rule e1(1))
  have b: "get_alerts None s2
        = (Inr (JObj [(''alerts'', JArr (JObj A2 # JObj A1 # ALERTS_DB s0))], 200), s2)"
    by (simp add: get_alerts_global e1(1) e2(1))
  have c: "get_alerts (Some e) s1
          = (Inr (JObj [(''alerts'', JArr (JObj A1 #
               (case USERS_DB s0 (str_lower e) of None \<Rightarrow> [] | Some u \<Rightarrow> history u)))], 200), s1)
        \<and> get_alerts (Some e) s2
          = (Inr (JObj [(''alerts'', JArr (JObj A2 # JObj A1 #
               (case USERS_DB s0 (str_lower e) of None \<Rightarrow> [] | Some u \<Rightarrow> history u)))], 200), s2)"
    if h: "e \<noteq> []" "ue = Some (str_lower e)"
  proof -
    from h have k: "str_lower e \<noteq> []" by (simp add: str_lower_empty)
    note u1 = e1(5)[OF h(2) k]
    note u2 = e2(5)[OF h(2) k]
    show ?thesis
      using h(1) by (simp add: get_alerts_def u1 u2 default_user_def split: option.splits)
  qed
  from a b c show ?thesis by blast
qed

lemma save_alert_fst:
  "fst (save_alert env sender message analysis ue s) =
     [(''id'', JStr (''id_'' @ take 12 (uuid4_hex env (clock s)))), (''sender'', sender),
      (''message'', message),
      (''is_scam'', dict_get analysis ''is_scam''),
      (''elder_warning'', dict_get analysis ''elder_warning''),
      (''explanation'', dict_get analysis ''explanation''),
      (''created_at'', JStr (utcnow_isoformat env (Suc (clock s)))),
      (''user_email'', (case ue of None \<Rightarrow> JNull | Some e \<Rightarrow> JStr e))]"
  by (simp add: save_alert_def gen_id_def now_iso_def setdefault_def Let_def
        split: prod.splits option.splits)

lemma save_alert_message: "dict_get (fst (save_alert env sender message analysis ue s)) ''message'' = message"
  unfolding save_alert_fst by (simp add: dict_get_def)

theorem save_alert_most_recent_first_witness:
  "get_alerts None (snd asha_second_save)
     = (Inr (JObj [(''alerts'', JArr [JObj (fst asha_second_save), JObj (fst asha_first_save)])], 200),
        snd asha_second_save)
   \<and> get_alerts (Some ''Asha@Example.com'') (snd asha_second_save)
     = (Inr (JObj [(''alerts'', JArr [JObj (fst asha_second_save), JObj (fst asha_first_save)])], 200),
        snd asha_second_save)
   \<and> dict_get (fst asha_first_save) ''message'' = JStr ''Verify OTP''
   \<and> dict_get (fst asha_second_save) ''message'' = JStr ''Lunch at 1?''"
proof -
  have h1: "save_alert env_plain (JStr ''VK-BANK'') (JStr ''Verify OTP'')
       (analyze_message (JStr ''Verify OTP'')) (Some ''asha@example.com'') startup
      = (fst asha_first_save, snd asha_first_save)"
    by (simp add: asha_first_save_def)
  have h2: "save_alert env_plain (JStr ''Ravi'') (JStr ''Lunch at 1?'')
       (analyze_message (JStr ''Lunch at 1?'')) (Some ''asha@example.com'') (snd asha_first_save)
      = (fst asha_second_save, snd asha_second_save)"
    by (simp add: asha_second_save_def)
  have k: "str_lower ''Asha@Example.com'' = ''asha@example.com''"
    by (rule lower_asha_mixed)
  have m1: "dict_get (fst asha_first_save) ''message'' = JStr ''Verify OTP''"
    by (simp add: asha_first_save_def save_alert_message)
  have m2: "dict_get (fst asha_second_save) ''message'' = JStr ''Lunch at 1?''"
    by (simp add: asha_second_save_def save_alert_message)
  show ?thesis
    using save_alert_most_recent_first[OF h1 h2, where e="''Asha@Example.com''"] k m1 m2
    by (simp add: startup_def)
qed

section \<open>Properties of the dispatch\<close>

lemma send_sms_unconfigured:
  "twilio_client env = None \<Longrightarrow> send_sms_twilio_single env t b s = (not_configured_result, s)"
  by (simp add: send_sms_twilio_single_def not_configured_result_def)

lemma send_sms_configured:
  "twilio_client env = Some c \<Longrightarrow>
     send_sms_twilio_single env t b s =
       (provider_result (messages_create env (clock s) b (TWILIO_NUMBER env) t),
        s\<lparr>clock := Suc (clock s),
           gateway_calls := gateway_calls s @ [(b, TWILIO_NUMBER env, t)]\<rparr>)"
  by (simp add: send_sms_twilio_single_def provider_result_def Let_def split: sum.splits)

lemma provider_result_shape: "is_send_result (JObj (provider_result answer))"
  by (cases answer) (simp_all add: provider_result_def is_send_result_def dict_get_def)

lemma send_sms_effect:
  assumes "send_sms_twilio_single env t b s = (res, s1)"
  shows "is_send_result (JObj res)"
    and "USERS_DB s1 = USERS_DB s" and "ALERTS_DB s1 = ALERTS_DB s"
    and "FAMILY_LOG_DB s1 = FAMILY_LOG_DB s"
    and "gateway_calls s1 = gateway_calls s @
           (case twilio_client env of None \<Rightarrow> [] | Some c \<Rightarrow> [(b, TWILIO_NUMBER env, t)])"
proof -
  show "is_send_result (JObj res)"
  proof (cases "twilio_client env")
    case None
    with assms have "res = not_configured_result" by (simp add: send_sms_unconfigured)
    then show ?thesis by (simp add: not_configured_result_def is_send_result_def dict_get_def)
  next
    case (Some c)
    with assms have "res = provider_result (messages_create env (clock s) b (TWILIO_NUMBER env) t)"
      by (simp add: send_sms_configured)
    then show ?thesis by (simp add: provider_result_shape)
  qed
  show "USERS_DB s1 = USERS_DB s" "ALERTS_DB s1 = ALERTS_DB s"
    "FAMILY_LOG_DB s1 = FAMILY_LOG_DB s"
    "gateway_calls s1 = gateway_calls s @
           (case twilio_client env of None \<Rightarrow> [] | Some c \<Rightarrow> [(b, TWILIO_NUMBER env, t)])"
    using assms
    by (cases "twilio_client env"; auto simp: send_sms_unconfigured send_sms_configured)+
qed

lemma send_and_log_effect:
  assumes "send_and_log env entry b t s = (le, s')"
  shows "logged entry t le"
    and "FAMILY_LOG_DB s' = le # FAMILY_LOG_DB s"
    and "USERS_DB s' = USERS_DB s" and "ALERTS_DB s' = ALERTS_DB s"
    and "gateway_calls s' = gateway_calls s @
           (case twilio_client env of None \<Rightarrow> [] | Some c \<Rightarrow> [(b, TWILIO_NUMBER env, t)])"
proof -
  obtain res s1 where r: "send_sms_twilio_single env t b s = (res, s1)"
    by (cases "send_sms_twilio_single env t b s")
  note e = send_sms_effect[OF r]
  from assms r have le: "le = JObj (entry (''id_'' @ take 12 (uuid4_hex env (clock s1))) t res
                                   (utcnow_isoformat env (Suc (clock s1))))"
    and s': "s' = s1\<lparr>clock := Suc (Suc (clock s1)), FAMILY_LOG_DB := le # FAMILY_LOG_DB s1\<rparr>"
    by (auto simp: send_and_log_def gen_id_def now_iso_def Let_def)
  show "logged entry t le" unfolding logged_def using le e(1) by blast
  show "FAMILY_LOG_DB s' = le # FAMILY_LOG_DB s" using s' e(4) by simp
  show "USERS_DB s' = USERS_DB s" using s' e(2) by simp
  show "ALERTS_DB s' = ALERTS_DB s" using s' e(3) by simp
  show "gateway_calls s' = gateway_calls s @
           (case twilio_client env of None \<Rightarrow> [] | Some c \<Rightarrow> [(b, TWILIO_NUMBER env, t)])"
    using s' e(5) by simp
qed

lemma send_each_effect:
  "send_each env entry b targets s acc = (results, s') \<Longrightarrow>
     \<exists>new. results = acc @ new
       \<and> list_all2 (\<lambda>le t. logged entry t le) new targets
       \<and> FAMILY_LOG_DB s' = rev new @ FAMILY_LOG_DB s
       \<and> USERS_DB s' = USERS_DB s \<and> ALERTS_DB s' = ALERTS_DB s
       \<and> gateway_calls s' = gateway_calls s @
           (case twilio_client env of None \<Rightarrow> []
            | Some c \<Rightarrow> map (\<lambda>t. (b, TWILIO_NUMBER env, t)) targets)"
proof (induction targets arbitrary: s acc)
  case Nil
  then show ?case by (simp split: option.splits)
next
  case (Cons t rest)
  obtain le s1 where st: "send_and_log env entry b t s = (le, s1)"
    by (cases "send_and_log env entry b t s")
  note e = send_and_log_effect[OF st]
  from Cons.prems st have "send_each env entry b rest s1 (acc @ [le]) = (results, s')"
    by simp
  from Cons.IH[OF this] obtain new where n:
    "results = (acc @ [le]) @ new"
    "list_all2 (\<lambda>le t. logged entry t le) new rest"
    "FAMILY_LOG_DB s' = rev new @ FAMILY_LOG_DB s1"
    "USERS_DB s' = USERS_DB s1" "ALERTS_DB s' = ALERTS_DB s1"
    "gateway_calls s' = gateway_calls s1 @
           (case twilio_client env of None \<Rightarrow> []
            | Some c \<Rightarrow> map (\<lambda>t. (b, TWILIO_NUMBER env, t)) rest)"
    by blast
  show ?case
  proof (intro exI[of _ "le # new"] conjI)
    show "results = acc @ le # new" using n(1) by simp
    show "list_all2 (\<lambda>le t. logged entry t le) (le # new) (t # rest)"
      using n(2) e(1) by simp
    show "FAMILY_LOG_DB s' = rev (le # new) @ FAMILY_LOG_DB s" using n(3) e(2) by simp
    show "USERS_DB s' = USERS_DB s" using n(4) e(3) by simp
    show "ALERTS_DB s' = ALERTS_DB s" using n(5) e(4) by simp
    show "gateway_calls s' = gateway_calls s @
           (case twilio_client env of None \<Rightarrow> []
            | Some c \<Rightarrow> map (\<lambda>t. (b, TWILIO_NUMBER env, t)) (t # rest))"
      using n(6) e(5) by (simp split: option.splits)
  qed
qed

lemma unconfigured_client:
  "TWILIO_SID env = [] \<or> TWILIO_AUTH env = [] \<Longrightarrow> twilio_client env = None"
  by (auto simp: twilio_client_def)

lemma send_and_log_unconfigured:
  "twilio_client env = None \<Longrightarrow>
     send_and_log env entry b t s =
       (JObj (entry (''id_'' @ take 12 (uuid4_hex env (clock s))) t not_configured_result
                (utcnow_isoformat env (Suc (clock s)))),
        s\<lparr>clock := Suc (Suc (clock s)),
           FAMILY_LOG_DB :=
             JObj (entry (''id_'' @ take 12 (uuid4_hex env (clock s))) t not_configured_result
                     (utcnow_isoformat env (Suc (clock s)))) # FAMILY_LOG_DB s\<rparr>)"
  by (simp add: send_and_log_def send_sms_unconfigured gen_id_def now_iso_def Let_def)

lemma send_each_length:
  "length (fst (send_each env entry b targets s acc)) = length acc + length targets"
proof -
  obtain results s' where r: "send_each env entry b targets s acc = (results, s')"
    by (cases "send_each env entry b targets s acc")
  from send_each_effect[OF r] obtain new where
    "results = acc @ new" "list_all2 (\<lambda>le t. logged entry t le) new targets"
    by blast
  then show ?thesis using r by (simp add: list_all2_lengthD)
qed

lemma send_each_calls:
  "gateway_calls (snd (send_each env entry b targets s acc)) = gateway_calls s @
     (case twilio_client env of None \<Rightarrow> []
      | Some c \<Rightarrow> map (\<lambda>t. (b, TWILIO_NUMBER env, t)) targets)"
proof -
  obtain results s' where r: "send_each env entry b targets s acc = (results, s')"
    by (cases "send_each env entry b targets s acc")
  from send_each_effect[OF r] show ?thesis using r by auto
qed

text \<open>
  Claim C9, as the code has it. When the account identifier or the secret is empty there
  is no client, and every send answers at once with
  \<^verbatim>\<open>{"ok": False, "error": "Twilio not configured (env missing)."}\<close> and leaves the
  record of provider calls as it was. The loop still appends one entry with that result
  for every number. Loading the module builds no client in that case and nothing else can
  fail there, so the process starts. The text of the error is not the
  \<^verbatim>\<open>gateway not configured\<close> of the specification.
\<close>

theorem unconfigured_gateway_sends:
  assumes "TWILIO_SID env = [] \<or> TWILIO_AUTH env = []"
  shows "twilio_client env = None
   \<and> send_sms_twilio_single env t b s =
       ([(''ok'', JBool False), (''error'', JStr ''Twilio not configured (env missing).'')], s)
   \<and> fst (send_and_log env entry b t s) =
       JObj (entry (''id_'' @ take 12 (uuid4_hex env (clock s))) t
               [(''ok'', JBool False), (''error'', JStr ''Twilio not configured (env missing).'')]
               (utcnow_isoformat env (Suc (clock s))))
   \<and> FAMILY_LOG_DB (snd (send_and_log env entry b t s))
       = fst (send_and_log env entry b t s) # FAMILY_LOG_DB s
   \<and> gateway_calls (snd (send_and_log env entry b t s)) = gateway_calls s
   \<and> length (fst (send_each env entry b targets s [])) = length targets
   \<and> gateway_calls (snd (send_each env entry b targets s [])) = gateway_calls s"
proof -
  from assms have n: "twilio_client env = None" by (rule unconfigured_client)
  have a: "send_sms_twilio_single env t b s =
       ([(''ok'', JBool False), (''error'', JStr ''Twilio not configured (env missing).'')], s)"
    using send_sms_unconfigured[OF n] by (simp add: not_configured_result_def)
  note l = send_and_log_unconfigured[OF n, of entry b t s]
  have b: "fst (send_and_log env entry b t s) =
       JObj (entry (''id_'' @ take 12 (uuid4_hex env (clock s))) t
               [(''ok'', JBool False), (''error'', JStr ''Twilio not configured (env missing).'')]
               (utcnow_isoformat env (Suc (clock s))))"
    unfolding l by (simp add: not_configured_result_def)
  have c: "FAMILY_LOG_DB (snd (send_and_log env entry b t s))
       = fst (send_and_log env entry b t s) # FAMILY_LOG_DB s"
    unfolding l by simp
  have d: "gateway_calls (snd (send_and_log env entry b t s)) = gateway_calls s"
    unfolding l by simp
  have e: "length (fst (send_each env entry b targets s [])) = length targets"
    by (simp add: send_each_length)
  have f: "gateway_calls (snd (send_each env entry b targets s [])) = gateway_calls s"
    by (simp add: send_each_calls n)
  from n a b c d e f show ?thesis by blast
qed

theorem gateway_not_configured_text_counterexample:
  "fst (send_sms_twilio_single env_plain ''+919876543210'' (JStr ''hello'') startup)
     = [(''ok'', JBool False), (''error'', JStr ''Twilio not configured (env missing).'')]
   \<and> fst (send_sms_twilio_single env_plain ''+919876543210'' (JStr ''hello'') startup)
     \<noteq> [(''ok'', JBool False), (''error'', JStr ''gateway not configured'')]"
  by (simp add: send_sms_twilio_single_def twilio_client_def env_plain_def)

theorem unconfigured_gateway_sends_witness:
  "TWILIO_SID env_plain = []
   \<and> send_sms_twilio_single env_plain ''+919876543210'' (JStr ''hello'') startup =
       ([(''ok'', JBool False), (''error'', JStr ''Twilio not configured (env missing).'')], startup)
   \<and> FAMILY_LOG_DB (snd (send_and_log env_plain (adhoc_log_entry (JStr ''hello'') JNull)
         (JStr ''hello'') ''+919876543210'' startup))
      = [JObj [(''id'', JStr ''id_9f1c2e4a7b3d''), (''to'', JStr ''+919876543210''),
               (''message_sent'', JStr ''hello''), (''details'', JNull),
               (''result'', JObj [(''ok'', JBool False),
                                  (''error'', JStr ''Twilio not configured (env missing).'')]),
               (''created_at'', JStr ''2024-05-01T10:00:00+00:00'')]]
   \<and> gateway_calls (snd (send_each env_plain (adhoc_log_entry (JStr ''hello'') JNull)
         (JStr ''hello'') [''+919876543210'', ''+14155550100''] startup [])) = []
   \<and> length (fst (send_each env_plain (adhoc_log_entry (JStr ''hello'') JNull)
         (JStr ''hello'') [''+919876543210'', ''+14155550100''] startup [])) = 2"
proof -
  have h: "TWILIO_SID env_plain = [] \<or> TWILIO_AUTH env_plain = []"
    by (simp add: env_plain_def)
  have p: "TWILIO_SID env_plain = []" by (simp add: env_plain_def)
  show ?thesis
    using unconfigured_gateway_sends[OF h, where t="''+919876543210''" and b="JStr ''hello''"
        and s=startup and entry="adhoc_log_entry (JStr ''hello'') JNull"
        and targets="[''+919876543210'', ''+14155550100'']"] p
    by (simp add: adhoc_log_entry_def env_plain_def startup_def)
qed

lemma clean_str_e164:
  assumes "clean_str raw DEFAULT_COUNTRY = Some r"
  shows "startswith r ''+'' \<and> str_isdigit (drop 1 r)"
proof -
  define s where "s = foldl (\<lambda>s ch. str_remove ch s) (str_strip raw)
                [CHR '' '', CHR ''-'', CHR ''('', CHR '')'', CHR ''.'']"
  define sn where "sn = (if startswith s ''+'' then drop 1 s else s)"
  define inner where "inner =
     (if str_isdigit sn then
        (if length sn = 10 then Some (''+'' @ ''91'' @ sn)
         else if length sn = 12 \<and> startswith sn ''91'' then Some (''+'' @ sn)
         else if length sn = 11 \<and> startswith sn ''0''
                 \<and> str_isdigit (drop 1 sn) \<and> length (drop 1 sn) = 10
           then Some (''+'' @ ''91'' @ drop 1 sn)
         else None)
      else None)"
  have unfolded: "clean_str raw DEFAULT_COUNTRY =
     (case inner of Some r \<Rightarrow> Some r
      | None \<Rightarrow> if startswith s ''+'' \<and> str_isdigit (drop 1 s) then Some s else None)"
    unfolding clean_str_def s_def[symmetric] Let_def sn_def[symmetric] DEFAULT_COUNTRY_def
      inner_def[symmetric]
    by (rule refl)
  have cc: "str_isdigit x \<Longrightarrow> str_isdigit (''91'' @ x)" for x
    by (simp add: str_isdigit_def digit_char_def)
  have plus: "startswith (''+'' @ x) ''+''" for x
    by (simp add: startswith_def)
  have in_shape: "startswith x ''+'' \<and> str_isdigit (drop 1 x)" if "inner = Some x" for x
  proof (cases "str_isdigit sn")
    case False
    with that show ?thesis by (simp add: inner_def)
  next
    case True
    from that True consider "x = ''+'' @ ''91'' @ sn" | "x = ''+'' @ sn"
      | "str_isdigit (drop 1 sn)" "x = ''+'' @ ''91'' @ drop 1 sn"
      unfolding inner_def by (simp split: if_splits)
    then show ?thesis
    proof cases
      case 1
      then show ?thesis using cc[OF True] plus by simp
    next
      case 2
      then show ?thesis using True plus by simp
    next
      case 3
      then show ?thesis using cc[OF 3(1)] plus by simp
    qed
  qed
  show ?thesis
  proof (cases inner)
    case None
    with assms unfolded show ?thesis by (simp split: if_splits)
  next
    case (Some x)
    with assms unfolded have "r = x" by simp
    with in_shape[OF Some] show ?thesis by simp
  qed
qed

lemma clean_and_e164_plus_digits:
  "clean_and_e164 p DEFAULT_COUNTRY = Some r \<Longrightarrow> startswith r ''+'' \<and> str_isdigit (drop 1 r)"
  by (cases p) (auto dest: clean_str_e164 split: if_splits)

lemma plus_digits_to_field:
  assumes "startswith r ''+''" "str_isdigit (drop 1 r)"
  shows "to_field (JStr r)"
proof (cases "has_superscript r")
  case True
  then show ?thesis by simp
next
  case False
  from no_superscript_subset[OF False set_tl] have "str_isdigit (tl r) = all_digits (tl r)"
    by (rule isdigit_decimal)
  with assms show ?thesis by (simp add: startswith_plus drop_Suc)
qed

lemma clean_and_e164_shape:
  "clean_and_e164 p DEFAULT_COUNTRY = Some r \<Longrightarrow> to_field (JStr r)"
  using clean_and_e164_plus_digits plus_digits_to_field by blast

lemma clean_and_e164_nonempty:
  "clean_and_e164 p DEFAULT_COUNTRY = Some r \<Longrightarrow> r \<noteq> []"
  by (drule clean_and_e164_plus_digits) (auto simp: startswith_def)

lemma clean_phones_map_filter:
  "clean_phones ps acc = acc @ List.map_filter (\<lambda>p. clean_and_e164 p DEFAULT_COUNTRY) ps"
proof (induction ps arbitrary: acc)
  case Nil
  then show ?case by (simp add: List.map_filter_simps)
next
  case (Cons p ps)
  then show ?case
    by (cases "clean_and_e164 p DEFAULT_COUNTRY")
       (auto simp: List.map_filter_simps dest: clean_and_e164_nonempty)
qed


lemma clean_phones_e164:
  assumes "t \<in> set (clean_phones ps [])"
  shows "to_field (JStr t)"
proof -
  from assms obtain p where "clean_and_e164 p DEFAULT_COUNTRY = Some t"
    by (auto simp: clean_phones_map_filter List.map_filter_def)
  then show ?thesis by (rule clean_and_e164_shape)
qed















section \<open>Properties of the scam dispatch\<close>

lemma test_message_not_dict:
  "(\<forall>d. py_or req (JObj []) \<noteq> JObj d) \<Longrightarrow>
     test_message env req s = (Inl (AttributeError (type_name (py_or req (JObj []))) ''get''), s)"
  by (cases "py_or req (JObj [])") (simp_all add: test_message_def)

lemma test_message_bad_email:
  "py_or req (JObj []) = JObj d \<Longrightarrow>
   py_lower (py_or (dict_get d ''email'') (JStr [])) = Inl err \<Longrightarrow>
     test_message env req s = (Inl err, s)"
  by (simp add: test_message_def)

lemma test_message_dict:
  assumes "py_or req (JObj []) = JObj d"
      and "py_lower (py_or (dict_get d ''email'') (JStr [])) = Inr email"
      and "save_alert env (py_or (dict_get d ''sender'') (JStr ''User''))
             (py_or (dict_get d ''message'') (JStr []))
             (analyze_message (py_or (dict_get d ''message'') (JStr [])))
             (if email \<noteq> [] then Some email else None) s = (alert, s1)"
  shows "test_message env req s =
     (if verdict d = JBool True then
        (case add_user_phone email s1 [] of
           Inl err \<Rightarrow> (Inl err, s1)
         | Inr recipients1 \<Rightarrow>
             (case add_family_phones email s1 recipients1 of
                Inl err \<Rightarrow> (Inl err, s1)
              | Inr recipients \<Rightarrow>
                  (Inr (JObj [(''success'', JBool True), (''alert'', JObj alert),
                              (''sms_sent'', JArr (fst (send_each env
                                  (scam_log_entry (scam_sms_body env d)) (JStr (scam_sms_body env d))
                                  (clean_phones (set_iter env recipients) []) s1 [])))], 200),
                   snd (send_each env
                          (scam_log_entry (scam_sms_body env d)) (JStr (scam_sms_body env d))
                          (clean_phones (set_iter env recipients) []) s1 []))))
      else (Inr (JObj [(''success'', JBool True), (''alert'', JObj alert)], 200), s1))"
proof (cases "email = []")
  case True
  with assms show ?thesis
    by (simp add: test_message_def verdict_def scam_sms_body_def Let_def split_beta
             split: sum.splits)
next
  case False
  with assms show ?thesis
    by (simp add: test_message_def verdict_def scam_sms_body_def Let_def split_beta
             split: sum.splits)
qed




lemma test_message_effect:
  assumes run: "test_message env req s = (r, s')" and d: "py_or req (JObj []) = JObj d"
  shows "\<exists>new targets.
       FAMILY_LOG_DB s' = rev new @ FAMILY_LOG_DB s
     \<and> list_all2 (\<lambda>le t. logged (scam_log_entry (scam_sms_body env d)) t le) new targets
     \<and> (\<forall>t \<in> set targets. to_field (JStr t))
     \<and> gateway_calls s' = gateway_calls s @
          (case twilio_client env of None \<Rightarrow> []
           | Some c \<Rightarrow> map (\<lambda>t. (JStr (scam_sms_body env d), TWILIO_NUMBER env, t)) targets)
     \<and> (verdict d \<noteq> JBool True \<longrightarrow>
          targets = [] \<and> (\<forall>body status. r = Inr (JObj body, status)
                            \<longrightarrow> map_of body ''sms_sent'' = None))"
proof (cases "py_lower (py_or (dict_get d ''email'') (JStr []))")
  case (Inl err)
  from test_message_bad_email[OF d Inl, of env s] run have "s' = s" "r = Inl err" by simp_all
  then show ?thesis
    by (intro exI[of _ "[]"]) (simp split: option.splits)
next
  case (Inr email)
  obtain alert s1 where sa:
    "save_alert env (py_or (dict_get d ''sender'') (JStr ''User''))
             (py_or (dict_get d ''message'') (JStr []))
             (analyze_message (py_or (dict_get d ''message'') (JStr [])))
             (if email \<noteq> [] then Some email else None) s = (alert, s1)"
    by (cases "save_alert env (py_or (dict_get d ''sender'') (JStr ''User''))
             (py_or (dict_get d ''message'') (JStr []))
             (analyze_message (py_or (dict_get d ''message'') (JStr [])))
             (if email \<noteq> [] then Some email else None) s")
  note e = save_alert_effect(2,3)[OF sa]
  note tm = test_message_dict[OF d Inr sa]
  have quiet: ?thesis if "s' = s1" "\<forall>body status. r = Inr (JObj body, status)
                            \<longrightarrow> map_of body ''sms_sent'' = None"
    using that e by (intro exI[of _ "[]"]) (simp split: option.splits)
  show ?thesis
  proof (cases "verdict d = JBool True")
    case False
    with tm run have "s' = s1" "r = Inr (JObj [(''success'', JBool True), (''alert'', JObj alert)], 200)"
      by simp_all
    then show ?thesis by (intro quiet) simp_all
  next
    case True
    show ?thesis
    proof (cases "add_user_phone email s1 []")
      case (Inl err)
      with tm run True have "s' = s1" "r = Inl err" by simp_all
      then show ?thesis by (intro quiet) simp_all
    next
      case r1: (Inr recipients1)
      show ?thesis
      proof (cases "add_family_phones email s1 recipients1")
        case (Inl err)
        with tm run True r1 have "s' = s1" "r = Inl err" by simp_all
        then show ?thesis by (intro quiet) simp_all
      next
        case (Inr recipients)
        define targets where "targets = clean_phones (set_iter env recipients) []"
        obtain logs s2 where se: "send_each env (scam_log_entry (scam_sms_body env d))
               (JStr (scam_sms_body env d)) targets s1 [] = (logs, s2)"
          by (cases "send_each env (scam_log_entry (scam_sms_body env d))
               (JStr (scam_sms_body env d)) targets s1 []")
        from tm run True r1 Inr se have s': "s' = s2"
          by (simp add: targets_def)
        from send_each_effect[OF se] obtain new where n:
          "list_all2 (\<lambda>le t. logged (scam_log_entry (scam_sms_body env d)) t le) new targets"
          "FAMILY_LOG_DB s2 = rev new @ FAMILY_LOG_DB s1"
          "gateway_calls s2 = gateway_calls s1 @
             (case twilio_client env of None \<Rightarrow> []
              | Some c \<Rightarrow> map (\<lambda>t. (JStr (scam_sms_body env d), TWILIO_NUMBER env, t)) targets)"
          by blast
        have t: "\<forall>t \<in> set targets. to_field (JStr t)"
          unfolding targets_def using clean_phones_e164 by blast
        show ?thesis
          using n t e s' True by (intro exI[of _ new] exI[of _ targets]) simp
      qed
    qed
  qed
qed

lemma analyze_message_is_scam:
  "dict_get (analyze_message m) ''is_scam'' = JBool True
   \<or> dict_get (analyze_message m) ''is_scam'' = JBool False
   \<or> dict_get (analyze_message m) ''is_scam'' = JNull"
  by (cases "py_lower (py_or m (JStr []))")
     (simp_all add: analyze_message_def dict_get_def Let_def)

lemma verdict_values: "verdict d = JBool True \<or> verdict d = JBool False \<or> verdict d = JNull"
  unfolding verdict_def by (rule analyze_message_is_scam)

text \<open>
  Claim C8. When the classifier's verdict on the submitted message is not \<^verbatim>\<open>True\<close>
  (it is then \<^verbatim>\<open>False\<close>, or \<^verbatim>\<open>None\<close> when the analysis failed), \<^verbatim>\<open>test_message\<close> adds no
  entry to \<^verbatim>\<open>FAMILY_LOG_DB\<close>, makes no call to the provider, and its answer has no key
  \<^verbatim>\<open>sms_sent\<close>. A request body that is not an object leaves the whole state unchanged.
\<close>

theorem test_message_dispatch_needs_scam_verdict:
  assumes "test_message env req s = (r, s')"
  shows "(py_or req (JObj []) = JObj d \<and> verdict d \<noteq> JBool True \<longrightarrow>
            FAMILY_LOG_DB s' = FAMILY_LOG_DB s \<and> gateway_calls s' = gateway_calls s
            \<and> (\<forall>body status. r = Inr (JObj body, status) \<longrightarrow> map_of body ''sms_sent'' = None))
       \<and> ((\<forall>d. py_or req (JObj []) \<noteq> JObj d) \<longrightarrow> s' = s \<and> (\<exists>err. r = Inl err))
       \<and> (verdict d = JBool True \<or> verdict d = JBool False \<or> verdict d = JNull)"
proof -
  have a: "FAMILY_LOG_DB s' = FAMILY_LOG_DB s \<and> gateway_calls s' = gateway_calls s
            \<and> (\<forall>body status. r = Inr (JObj body, status) \<longrightarrow> map_of body ''sms_sent'' = None)"
    if d: "py_or req (JObj []) = JObj d" and v: "verdict d \<noteq> JBool True"
  proof -
    from test_message_effect[OF assms d] v obtain new targets where
      "FAMILY_LOG_DB s' = rev new @ FAMILY_LOG_DB s"
      "list_all2 (\<lambda>le t. logged (scam_log_entry (scam_sms_body env d)) t le) new targets"
      "gateway_calls s' = gateway_calls s @
          (case twilio_client env of None \<Rightarrow> []
           | Some c \<Rightarrow> map (\<lambda>t. (JStr (scam_sms_body env d), TWILIO_NUMBER env, t)) targets)"
      "targets = []"
      "\<forall>body status. r = Inr (JObj body, status) \<longrightarrow> map_of body ''sms_sent'' = None"
      by blast
    then show ?thesis by (simp split: option.splits)
  qed
  have b: "s' = s \<and> (\<exists>err. r = Inl err)" if "\<forall>d. py_or req (JObj []) \<noteq> JObj d"
    using test_message_not_dict[OF that, of env s] assms by simp
  from a b verdict_values[of d] show ?thesis by blast
qed

lemma asha_safe_dict:
  "py_or asha_safe_request (JObj []) =
     JObj [(''email'', JStr ''asha@example.com''), (''sender'', JStr ''Ravi''),
           (''message'', JStr ''Lunch at 1?'')]"
  by (simp add: asha_safe_request_def py_or_def)

lemma asha_safe_verdict:
  "verdict [(''email'', JStr ''asha@example.com''), (''sender'', JStr ''Ravi''),
            (''message'', JStr ''Lunch at 1?'')] = JBool False"
  by code_simp

lemma number_message_verdict:
  "verdict [(''email'', JStr ''asha@example.com''), (''message'', JInt 5)] = JNull"
  by code_simp

theorem test_message_dispatch_needs_scam_verdict_witness:
  "verdict [(''email'', JStr ''asha@example.com''), (''sender'', JStr ''Ravi''),
            (''message'', JStr ''Lunch at 1?'')] = JBool False
   \<and> FAMILY_LOG_DB (snd (test_message env_twilio asha_safe_request asha_state)) = []
   \<and> gateway_calls (snd (test_message env_twilio asha_safe_request asha_state)) = []
   \<and> verdict [(''email'', JStr ''asha@example.com''), (''message'', JInt 5)] = JNull
   \<and> FAMILY_LOG_DB (snd (test_message env_twilio
         (JObj [(''email'', JStr ''asha@example.com''), (''message'', JInt 5)]) asha_state)) = []
   \<and> snd (test_message env_twilio (JStr ''Verify OTP'') asha_state) = asha_state"
proof -
  note T = test_message_dispatch_needs_scam_verdict[OF surjective_pairing]
  have log0: "FAMILY_LOG_DB asha_state = []" "gateway_calls asha_state = []"
    by (simp_all add: asha_state_eq startup_def)
  from T[where env=env_twilio and req=asha_safe_request and s=asha_state
      and d="[(''email'', JStr ''asha@example.com''), (''sender'', JStr ''Ravi''),
            (''message'', JStr ''Lunch at 1?'')]"] asha_safe_dict asha_safe_verdict log0
  have a: "FAMILY_LOG_DB (snd (test_message env_twilio asha_safe_request asha_state)) = []
     \<and> gateway_calls (snd (test_message env_twilio asha_safe_request asha_state)) = []"
    by simp
  have pd: "py_or (JObj [(''email'', JStr ''asha@example.com''), (''message'', JInt 5)]) (JObj [])
      = JObj [(''email'', JStr ''asha@example.com''), (''message'', JInt 5)]"
    by (simp add: py_or_def)
  from T[where env=env_twilio
      and req="JObj [(''email'', JStr ''asha@example.com''), (''message'', JInt 5)]"
      and s=asha_state
      and d="[(''email'', JStr ''asha@example.com''), (''message'', JInt 5)]"]
    pd number_message_verdict log0
  have b: "FAMILY_LOG_DB (snd (test_message env_twilio
         (JObj [(''email'', JStr ''asha@example.com''), (''message'', JInt 5)]) asha_state)) = []"
    by simp
  have ps: "\<forall>d. py_or (JStr ''Verify OTP'') (JObj []) \<noteq> JObj d"
    by (simp add: py_or_def)
  from T[where env=env_twilio and req="JStr ''Verify OTP''" and s=asha_state] ps
  have c: "snd (test_message env_twilio (JStr ''Verify OTP'') asha_state) = asha_state"
    by blast
  from a b c asha_safe_verdict number_message_verdict show ?thesis by blast
qed






lemma asha_scam_dict:
  "py_or asha_scam_request (JObj []) =
     JObj [(''email'', JStr ''asha@example.com''), (''sender'', JStr ''VK-BANK''),
           (''message'', JStr ''Verify OTP'')]"
  by (simp add: asha_scam_request_def py_or_def)

lemma asha_scam_verdict:
  "verdict [(''email'', JStr ''asha@example.com''), (''sender'', JStr ''VK-BANK''),
            (''message'', JStr ''Verify OTP'')] = JBool True"
  by code_simp

lemma asha_scam_email:
  "py_lower (py_or (dict_get [(''email'', JStr ''asha@example.com''), (''sender'', JStr ''VK-BANK''),
            (''message'', JStr ''Verify OTP'')] ''email'') (JStr [])) = Inr ''asha@example.com''"
  by (simp add: dict_get_def py_or_def lower_asha)

lemma asha_recipients:
  assumes "USERS_DB s1 ''asha@example.com'' = Some u"
    "profile u = JObj [(''email'', JStr ''asha@example.com''), (''name'', JStr ''Asha''),
                        (''phone'', JStr ''9876543210'')]"
    "family u = JArr [JObj [(''name'', JStr ''Ravi''), (''phone'', JStr ''+919876543210''),
                             (''relation'', JStr ''son'')]]"
  shows "add_user_phone ''asha@example.com'' s1 [] = Inr [JStr ''9876543210'']"
    and "add_family_phones ''asha@example.com'' s1 [JStr ''9876543210'']
           = Inr [JStr ''9876543210'', JStr ''+919876543210'']"
  using assms
  by (simp_all add: add_user_phone_def add_family_phones_def dict_get_def set_add_def py_eq_def)

lemma asha_cleaned:
  "clean_phones (set_iter env [JStr ''9876543210'', JStr ''+919876543210'']) []
     = [''+919876543210'', ''+919876543210'']"
proof -
  have a: "clean_and_e164 (JStr ''9876543210'') DEFAULT_COUNTRY = Some ''+919876543210''"
    by (simp add: phone_eval)
  have b: "clean_and_e164 (JStr ''+919876543210'') DEFAULT_COUNTRY = Some ''+919876543210''"
    by (simp add: phone_eval)
  have "set_iter env [JStr ''9876543210'', JStr ''+919876543210'']
          = [JStr ''9876543210'', JStr ''+919876543210'']
        \<or> set_iter env [JStr ''9876543210'', JStr ''+919876543210'']
          = [JStr ''+919876543210'', JStr ''9876543210'']"
    by (simp add: set_iter_def)
  then show ?thesis using a b by (auto simp del: clean_and_e164.simps)
qed

lemma logged_scam_to:
  "logged (scam_log_entry body) t le \<Longrightarrow> entry_to le = JStr t"
  by (auto simp: logged_def scam_log_entry_def entry_to_def dict_get_def)

lemma asha_scam_dispatch:
  "clean_and_e164 (JStr ''9876543210'') DEFAULT_COUNTRY = Some ''+919876543210''
   \<and> clean_and_e164 (JStr ''+919876543210'') DEFAULT_COUNTRY = Some ''+919876543210''
   \<and> map entry_to (FAMILY_LOG_DB (snd (test_message env asha_scam_request asha_state)))
        = [JStr ''+919876543210'', JStr ''+919876543210'']
   \<and> map (\<lambda>c. snd (snd c)) (gateway_calls (snd (test_message env asha_scam_request asha_state)))
        = (case twilio_client env of None \<Rightarrow> []
           | Some c \<Rightarrow> [''+919876543210'', ''+919876543210''])"
proof -
  define d where "d = [(''email'', JStr ''asha@example.com''), (''sender'', JStr ''VK-BANK''),
           (''message'', JStr ''Verify OTP'')]"
  define body where "body = scam_sms_body env d"
  have a: "clean_and_e164 (JStr ''9876543210'') DEFAULT_COUNTRY = Some ''+919876543210''"
    by (simp add: phone_eval)
  have b: "clean_and_e164 (JStr ''+919876543210'') DEFAULT_COUNTRY = Some ''+919876543210''"
    by (simp add: phone_eval)
  obtain alert s1 where sa:
    "save_alert env (py_or (dict_get d ''sender'') (JStr ''User''))
             (py_or (dict_get d ''message'') (JStr []))
             (analyze_message (py_or (dict_get d ''message'') (JStr [])))
             (if ''asha@example.com'' \<noteq> [] then Some ''asha@example.com'' else None) asha_state
       = (alert, s1)"
    by (cases "save_alert env (py_or (dict_get d ''sender'') (JStr ''User''))
             (py_or (dict_get d ''message'') (JStr []))
             (analyze_message (py_or (dict_get d ''message'') (JStr [])))
             (if ''asha@example.com'' \<noteq> [] then Some ''asha@example.com'' else None) asha_state")
  have ue: "(if ''asha@example.com'' \<noteq> [] then Some ''asha@example.com'' else None)
              = Some ''asha@example.com''" by simp
  have ne: "''asha@example.com'' \<noteq> []" by simp
  note e = save_alert_effect[OF sa]
  have log1: "FAMILY_LOG_DB s1 = []" using e(2) by (simp add: asha_state_eq startup_def)
  have calls1: "gateway_calls s1 = []" using e(3) by (simp add: asha_state_eq startup_def)
  obtain u where u: "USERS_DB s1 ''asha@example.com'' = Some u"
    "profile u = JObj [(''email'', JStr ''asha@example.com''), (''name'', JStr ''Asha''),
                        (''phone'', JStr ''9876543210'')]"
    "family u = JArr [JObj [(''name'', JStr ''Ravi''), (''phone'', JStr ''+919876543210''),
                             (''relation'', JStr ''son'')]]"
    using e(5)[OF ue ne] by (simp add: asha_state_eq startup_def)
  note rc = asha_recipients[OF u]
  note tm = test_message_dict[OF asha_scam_dict[folded d_def] asha_scam_email[folded d_def] sa]
  obtain logs s2 where se: "send_each env (scam_log_entry body) (JStr body)
       [''+919876543210'', ''+919876543210''] s1 [] = (logs, s2)"
    by (cases "send_each env (scam_log_entry body) (JStr body)
       [''+919876543210'', ''+919876543210''] s1 []")
  have s2: "snd (test_message env asha_scam_request asha_state) = s2"
    unfolding tm using asha_scam_verdict[folded d_def] rc se
    by (simp add: asha_cleaned body_def)
  from send_each_effect[OF se] obtain new where n:
    "list_all2 (\<lambda>le t. logged (scam_log_entry body) t le) new
       [''+919876543210'', ''+919876543210'']"
    "FAMILY_LOG_DB s2 = rev new @ FAMILY_LOG_DB s1"
    "gateway_calls s2 = gateway_calls s1 @
       (case twilio_client env of None \<Rightarrow> []
        | Some c \<Rightarrow> map (\<lambda>t. (JStr body, TWILIO_NUMBER env, t))
                     [''+919876543210'', ''+919876543210''])"
    by blast
  from n(1) obtain le1 le2 where new: "new = [le1, le2]"
    and l1: "logged (scam_log_entry body) ''+919876543210'' le1"
    and l2: "logged (scam_log_entry body) ''+919876543210'' le2"
    by (auto simp: list_all2_Cons2)
  have c: "map entry_to (FAMILY_LOG_DB (snd (test_message env asha_scam_request asha_state)))
        = [JStr ''+919876543210'', JStr ''+919876543210'']"
    unfolding s2 n(2) new log1 using logged_scam_to[OF l1] logged_scam_to[OF l2] by simp
  have d: "map (\<lambda>c. snd (snd c)) (gateway_calls (snd (test_message env asha_scam_request asha_state)))
        = (case twilio_client env of None \<Rightarrow> []
           | Some c \<Rightarrow> [''+919876543210'', ''+919876543210''])"
    unfolding s2 n(3) calls1 by (simp split: option.splits)
  from a b c d show ?thesis by blast
qed

text \<open>
  Claim C1, evaluated on the code. Asha's profile phone is \<^verbatim>\<open>9876543210\<close> and her one
  family contact has \<^verbatim>\<open>+919876543210\<close>. Both normalize to \<^verbatim>\<open>+919876543210\<close>. The set of
  recipients is built from the raw strings, which differ, and the numbers are normalized
  afterwards: in every environment a scam message gives two entries for the one number,
  and two calls of the provider when there is a client. The claim asks for one.
\<close>

theorem scam_dispatch_repeats_equal_numbers:
  "clean_and_e164 (JStr ''9876543210'') DEFAULT_COUNTRY = Some ''+919876543210''
   \<and> clean_and_e164 (JStr ''+919876543210'') DEFAULT_COUNTRY = Some ''+919876543210''
   \<and> map entry_to (FAMILY_LOG_DB (snd (test_message env asha_scam_request asha_state)))
        = [JStr ''+919876543210'', JStr ''+919876543210'']
   \<and> map (\<lambda>c. snd (snd c)) (gateway_calls (snd (test_message env asha_scam_request asha_state)))
        = (case twilio_client env of None \<Rightarrow> []
           | Some c \<Rightarrow> [''+919876543210'', ''+919876543210''])"
  by (rule asha_scam_dispatch)

theorem scam_dispatch_repeats_equal_numbers_witness:
  "map entry_to (FAMILY_LOG_DB (snd (test_message env_twilio asha_scam_request asha_state)))
        = [JStr ''+919876543210'', JStr ''+919876543210'']
   \<and> map (\<lambda>c. snd (snd c))
         (gateway_calls (snd (test_message env_twilio asha_scam_request asha_state)))
        = [''+919876543210'', ''+919876543210'']
   \<and> map entry_to (FAMILY_LOG_DB (snd (test_message env_plain asha_scam_request asha_state)))
        = [JStr ''+919876543210'', JStr ''+919876543210'']"
  using scam_dispatch_repeats_equal_numbers[of env_twilio]
    scam_dispatch_repeats_equal_numbers[of env_plain]
  by (simp add: twilio_client_def env_twilio_def env_plain_def)


end
